theory Spec2Isabelle
  imports Complex_Main
begin

section \<open>Numbers, errors and rectangles\<close>

text \<open>
  The program computes with Python floats and integers. Floats are modelled by
  \<^typ>\<open>real\<close>: every statement below is about exact real arithmetic, not about
  rounding. Python's \<^verbatim>\<open>int(x)\<close>, and the conversion that the constructor
  \<^verbatim>\<open>pygame.Rect(x, y, w, h)\<close> applies to each of its arguments, truncate towards
  zero. Assigning a float to an attribute of an existing rectangle (\<^verbatim>\<open>rect.x = v\<close>)
  converts differently: it rounds to the nearest integer, halves away from zero.
\<close>

datatype error = ZeroDivisionError | UnboundLocalError

definition py_int :: "real \<Rightarrow> int" where
  "py_int v = (if 0 \<le> v then \<lfloor>v\<rfloor> else \<lceil>v\<rceil>)"

definition rect_attr_int :: "real \<Rightarrow> int" where
  "rect_attr_int v = (if 0 \<le> v then \<lfloor>v + 1 / 2\<rfloor> else \<lceil>v - 1 / 2\<rceil>)"

text \<open>Python's \<^verbatim>\<open>a // 2\<close> (floor division by the literal 2).\<close>

definition floordiv2 :: "real \<Rightarrow> real" where
  "floordiv2 v = of_int \<lfloor>v / 2\<rfloor>"

text \<open>\<^verbatim>\<open>random.uniform(a, b)\<close> is \<^verbatim>\<open>a + (b - a) * random()\<close>; the draw
  \<open>u\<close> of \<^verbatim>\<open>random()\<close> is an input of the model.\<close>

definition random_uniform :: "real \<Rightarrow> real \<Rightarrow> real \<Rightarrow> real" where
  "random_uniform a b u = a + (b - a) * u"

text \<open>
  \<^verbatim>\<open>pygame.Rect\<close> stores four integers. \<open>Rect\<close> is its constructor from numbers,
  \<open>colliderect\<close> its intersection test: rectangles of zero width or height collide
  with nothing, and touching edges do not collide.
\<close>

record rect =
  rect_x :: int
  rect_y :: int
  rect_w :: int
  rect_h :: int

definition Rect :: "real \<Rightarrow> real \<Rightarrow> real \<Rightarrow> real \<Rightarrow> rect" where
  "Rect a b w h = \<lparr>rect_x = py_int a, rect_y = py_int b, rect_w = py_int w, rect_h = py_int h\<rparr>"

definition rect_left :: "rect \<Rightarrow> int" where "rect_left r = rect_x r"
definition rect_top :: "rect \<Rightarrow> int" where "rect_top r = rect_y r"
definition rect_right :: "rect \<Rightarrow> int" where "rect_right r = rect_x r + rect_w r"
definition rect_bottom :: "rect \<Rightarrow> int" where "rect_bottom r = rect_y r + rect_h r"

definition colliderect :: "rect \<Rightarrow> rect \<Rightarrow> bool" where
  "colliderect A B =
     (if rect_w A = 0 \<or> rect_h A = 0 \<or> rect_w B = 0 \<or> rect_h B = 0 then False
      else min (rect_x A) (rect_x A + rect_w A) < max (rect_x B) (rect_x B + rect_w B)
         \<and> min (rect_y A) (rect_y A + rect_h A) < max (rect_y B) (rect_y B + rect_h B)
         \<and> max (rect_x A + rect_w A) (rect_x A) > min (rect_x B) (rect_x B + rect_w B)
         \<and> max (rect_y A + rect_h A) (rect_y A) > min (rect_y B) (rect_y B + rect_h B))"

section \<open>MatrixMath\<close>

text \<open>A 3x3 numpy array is a triple of rows; a point is a pair.\<close>

type_synonym vec3 = "real \<times> real \<times> real"
type_synonym mat3 = "vec3 \<times> vec3 \<times> vec3"
type_synonym point = "real \<times> real"

definition row_dot :: "vec3 \<Rightarrow> vec3 \<Rightarrow> real" where
  "row_dot r v = (case r of (a, b, c) \<Rightarrow> case v of (p, q, s) \<Rightarrow> a * p + b * q + c * s)"

definition np_dot_vec :: "mat3 \<Rightarrow> vec3 \<Rightarrow> vec3" where
  "np_dot_vec m v = (case m of (r1, r2, r3) \<Rightarrow> (row_dot r1 v, row_dot r2 v, row_dot r3 v))"

definition mat_col :: "mat3 \<Rightarrow> nat \<Rightarrow> vec3" where
  "mat_col m j = (case m of ((a1, a2, a3), (b1, b2, b3), (c1, c2, c3)) \<Rightarrow>
     (if j = 0 then (a1, b1, c1) else if j = 1 then (a2, b2, c2) else (a3, b3, c3)))"

definition np_dot :: "mat3 \<Rightarrow> mat3 \<Rightarrow> mat3" where
  "np_dot m n = (case m of (r1, r2, r3) \<Rightarrow>
     ((row_dot r1 (mat_col n 0), row_dot r1 (mat_col n 1), row_dot r1 (mat_col n 2)),
      (row_dot r2 (mat_col n 0), row_dot r2 (mat_col n 1), row_dot r2 (mat_col n 2)),
      (row_dot r3 (mat_col n 0), row_dot r3 (mat_col n 1), row_dot r3 (mat_col n 2))))"

definition create_translation_matrix :: "real \<Rightarrow> real \<Rightarrow> mat3" where
  "create_translation_matrix dx dy = ((1, 0, dx), (0, 1, dy), (0, 0, 1))"

definition create_scale_matrix :: "real \<Rightarrow> real \<Rightarrow> mat3" where
  "create_scale_matrix sx sy = ((sx, 0, 0), (0, sy, 0), (0, 0, 1))"

definition create_rotation_matrix :: "real \<Rightarrow> mat3" where
  "create_rotation_matrix angle =
     (let cos_a = cos angle; sin_a = sin angle
      in ((cos_a, - sin_a, 0), (sin_a, cos_a, 0), (0, 0, 1)))"

definition apply_transformation :: "mat3 \<Rightarrow> point \<Rightarrow> point" where
  "apply_transformation matrix pt =
     (let homogeneous_point = (fst pt, snd pt, 1);
          transformed = np_dot_vec matrix homogeneous_point
      in (fst transformed, fst (snd transformed)))"

text \<open>\<^verbatim>\<open>combine_matrices(*matrices)\<close> starts from \<^verbatim>\<open>matrices[0]\<close> and multiplies
  the others on the right; the first argument is therefore a parameter of its own.\<close>

definition combine_matrices :: "mat3 \<Rightarrow> mat3 list \<Rightarrow> mat3" where
  "combine_matrices m ms = foldl np_dot m ms"

definition lerp :: "real \<Rightarrow> real \<Rightarrow> real \<Rightarrow> real" where
  "lerp start end' t = start + t * (end' - start)"

definition create_view_matrix :: "real \<Rightarrow> real \<Rightarrow> real \<Rightarrow> mat3" where
  "create_view_matrix camera_x camera_y zoom =
     (let translation = create_translation_matrix (- camera_x) (- camera_y);
          scaling = create_scale_matrix zoom zoom
      in combine_matrices scaling [translation])"

section \<open>Camera\<close>

record camera =
  cam_screen_width :: real
  cam_screen_height :: real
  cam_position :: point
  cam_target_position :: point
  cam_zoom :: real
  cam_target_zoom :: real
  cam_shake_intensity :: real
  cam_shake_timer :: int
  cam_position_lerp_speed :: real
  cam_zoom_lerp_speed :: real
  cam_min_x :: real
  cam_max_x :: real
  cam_view_matrix :: mat3
  cam_previous_matrix :: mat3

definition Camera_init :: "real \<Rightarrow> real \<Rightarrow> camera" where
  "Camera_init screen_width screen_height =
     \<lparr>cam_screen_width = screen_width, cam_screen_height = screen_height,
      cam_position = (0, 0), cam_target_position = (0, 0),
      cam_zoom = 1, cam_target_zoom = 1,
      cam_shake_intensity = 0, cam_shake_timer = 0,
      cam_position_lerp_speed = 8 / 100, cam_zoom_lerp_speed = 5 / 100,
      cam_min_x = 0, cam_max_x = 2000,
      cam_view_matrix = create_view_matrix 0 0 1,
      cam_previous_matrix = create_view_matrix 0 0 1\<rparr>"

definition set_target :: "real \<Rightarrow> real \<Rightarrow> camera \<Rightarrow> camera" where
  "set_target target_x target_y c =
     (let tx = target_x - cam_screen_width c / 2;
          ty = target_y - cam_screen_height c / 2
      in c\<lparr>cam_target_position :=
             (max (cam_min_x c) (min tx (cam_max_x c)), max (- 100) (min ty 100))\<rparr>)"

definition set_zoom_target :: "real \<Rightarrow> camera \<Rightarrow> camera" where
  "set_zoom_target zoom c = c\<lparr>cam_target_zoom := max (1 / 2) (min zoom 2)\<rparr>"

definition add_screen_shake :: "real \<Rightarrow> int \<Rightarrow> camera \<Rightarrow> camera" where
  "add_screen_shake intensity duration c =
     c\<lparr>cam_shake_intensity := intensity, cam_shake_timer := duration\<rparr>"

text \<open>The offset that \<^verbatim>\<open>Camera.update\<close> samples (\<^verbatim>\<open>shake_offset_x\<close>,
  \<^verbatim>\<open>shake_offset_y\<close>), from the two draws \<open>u1\<close> and \<open>u2\<close>.\<close>

definition shake_offset :: "real \<Rightarrow> real \<Rightarrow> camera \<Rightarrow> point" where
  "shake_offset u1 u2 c =
     (if cam_shake_timer c > 0
      then (random_uniform (- cam_shake_intensity c) (cam_shake_intensity c) u1,
            random_uniform (- cam_shake_intensity c) (cam_shake_intensity c) u2)
      else (0, 0))"

definition Camera_update :: "real \<Rightarrow> real \<Rightarrow> camera \<Rightarrow> camera" where
  "Camera_update u1 u2 c =
     (let c1 = c\<lparr>cam_previous_matrix := cam_view_matrix c\<rparr>;
          c2 = c1\<lparr>cam_position :=
                 (lerp (fst (cam_position c1)) (fst (cam_target_position c1)) (cam_position_lerp_speed c1),
                  lerp (snd (cam_position c1)) (snd (cam_target_position c1)) (cam_position_lerp_speed c1))\<rparr>;
          c3 = c2\<lparr>cam_zoom := lerp (cam_zoom c2) (cam_target_zoom c2) (cam_zoom_lerp_speed c2)\<rparr>;
          off = shake_offset u1 u2 c3;
          c4 = (if cam_shake_timer c3 > 0
                then (let c' = c3\<lparr>cam_shake_timer := cam_shake_timer c3 - 1\<rparr>
                      in if cam_shake_timer c' \<le> 0 then c'\<lparr>cam_shake_intensity := 0\<rparr> else c')
                else c3);
          final_x = fst (cam_position c4) + fst off;
          final_y = snd (cam_position c4) + snd off
      in c4\<lparr>cam_view_matrix := create_view_matrix final_x final_y (cam_zoom c4)\<rparr>)"

definition world_to_screen :: "camera \<Rightarrow> point \<Rightarrow> point" where
  "world_to_screen c world_pos = apply_transformation (cam_view_matrix c) world_pos"

text \<open>\<^verbatim>\<open>1 / self.zoom\<close> raises \<^verbatim>\<open>ZeroDivisionError\<close> when the zoom is zero.\<close>

definition screen_to_world :: "camera \<Rightarrow> point \<Rightarrow> error + point" where
  "screen_to_world c screen_pos =
     (let inv_translation = create_translation_matrix (fst (cam_position c)) (snd (cam_position c))
      in if cam_zoom c = 0 then Inl ZeroDivisionError
         else (let inv_scaling = create_scale_matrix (1 / cam_zoom c) (1 / cam_zoom c);
                   inverse_view = combine_matrices inv_translation [inv_scaling]
               in Inr (apply_transformation inverse_view screen_pos)))"

text \<open>A camera is driven by calls of its four mutating methods.\<close>

datatype camera_call =
    SetTarget real real
  | SetZoomTarget real
  | AddScreenShake real int
  | Update real real

fun camera_do :: "camera \<Rightarrow> camera_call \<Rightarrow> camera" where
  "camera_do c (SetTarget a b) = set_target a b c"
| "camera_do c (SetZoomTarget z) = set_zoom_target z c"
| "camera_do c (AddScreenShake i d) = add_screen_shake i d c"
| "camera_do c (Update u1 u2) = Camera_update u1 u2 c"

definition camera_run :: "camera \<Rightarrow> camera_call list \<Rightarrow> camera" where
  "camera_run c calls = foldl camera_do c calls"

section \<open>Platforms\<close>

record platform =
  plat_x :: real
  plat_y :: real
  plat_width :: real
  plat_height :: real
  plat_rect :: rect

definition Platform_init :: "real \<Rightarrow> real \<Rightarrow> real \<Rightarrow> real \<Rightarrow> platform" where
  "Platform_init a b w h =
     \<lparr>plat_x = a, plat_y = b, plat_width = w, plat_height = h, plat_rect = Rect a b w h\<rparr>"

text \<open>\<^verbatim>\<open>MovingPlatform\<close> inherits from \<^verbatim>\<open>Platform\<close>; its \<^verbatim>\<open>move_type\<close> is the
  string the constructor was given.\<close>

record moving_platform = platform +
  mp_original_pos :: point
  mp_move_type :: string
  mp_speed :: real
  mp_distance :: real
  mp_time :: real
  mp_velocity :: point
  mp_center_x :: real
  mp_center_y :: real
  mp_radius :: real

definition MovingPlatform_init ::
  "real \<Rightarrow> real \<Rightarrow> real \<Rightarrow> real \<Rightarrow> string \<Rightarrow> real \<Rightarrow> real \<Rightarrow> moving_platform" where
  "MovingPlatform_init a b w h move_type speed distance =
     \<lparr>plat_x = a, plat_y = b, plat_width = w, plat_height = h, plat_rect = Rect a b w h,
      mp_original_pos = (a, b), mp_move_type = move_type, mp_speed = speed,
      mp_distance = distance, mp_time = 0, mp_velocity = (0, 0),
      mp_center_x = a + floordiv2 w, mp_center_y = b + floordiv2 h,
      mp_radius = floordiv2 distance\<rparr>"

text \<open>
  The first half of \<^verbatim>\<open>MovingPlatform.update\<close>: the chain that computes \<^verbatim>\<open>new_x\<close>
  and \<^verbatim>\<open>new_y\<close> from the time already advanced. A \<^verbatim>\<open>move_type\<close> that is none of
  the three leaves both names unbound, and the next statement raises.
\<close>

definition new_position :: "moving_platform \<Rightarrow> error + point" where
  "new_position p =
     (if mp_move_type p = ''horizontal'' then
        (let offset = sin (mp_time p * mp_speed p) * mp_distance p
         in Inr (fst (mp_original_pos p) + offset, snd (mp_original_pos p)))
      else if mp_move_type p = ''vertical'' then
        (let offset = sin (mp_time p * mp_speed p) * mp_distance p
         in Inr (fst (mp_original_pos p), snd (mp_original_pos p) + offset))
      else if mp_move_type p = ''circular'' then
        (let angle = mp_time p * mp_speed p;
             rotation_matrix = create_rotation_matrix angle;
             relative_point = (mp_radius p, 0);
             rotated_point = apply_transformation rotation_matrix relative_point
         in Inr (mp_center_x p + fst rotated_point - floordiv2 (plat_width p),
                 mp_center_y p + snd rotated_point - floordiv2 (plat_height p)))
      else Inl UnboundLocalError)"

definition MovingPlatform_update :: "moving_platform \<Rightarrow> error + moving_platform" where
  "MovingPlatform_update p0 =
     (let p = p0\<lparr>mp_time := mp_time p0 + 2 / 100\<rparr>
      in case new_position p of
           Inl e \<Rightarrow> Inl e
         | Inr (new_x, new_y) \<Rightarrow>
            (let p1 = p\<lparr>mp_velocity := (new_x - plat_x p, new_y - plat_y p)\<rparr>;
                 translation_matrix =
                   create_translation_matrix (new_x - plat_x p1) (new_y - plat_y p1);
                 transformed_pos =
                   apply_transformation translation_matrix (plat_x p1, plat_y p1);
                 p2 = p1\<lparr>plat_x := fst transformed_pos, plat_y := snd transformed_pos\<rparr>
             in Inr (p2\<lparr>plat_rect := (plat_rect p2)\<lparr>rect_x := py_int (plat_x p2),
                                                      rect_y := py_int (plat_y p2)\<rparr>\<rparr>)))"

text \<open>The point that the constructor's \<^verbatim>\<open>center_x\<close>, \<^verbatim>\<open>center_y\<close> formula assigns
  to a platform at its current position: position plus \<^verbatim>\<open>width // 2\<close>,
  \<^verbatim>\<open>height // 2\<close>.\<close>

definition platform_center :: "moving_platform \<Rightarrow> point" where
  "platform_center p = (plat_x p + floordiv2 (plat_width p), plat_y p + floordiv2 (plat_height p))"

definition distance_to_orbit_center :: "moving_platform \<Rightarrow> real" where
  "distance_to_orbit_center p =
     sqrt ((fst (platform_center p) - mp_center_x p)\<^sup>2 + (snd (platform_center p) - mp_center_y p)\<^sup>2)"

text \<open>The list \<^verbatim>\<open>all_platforms\<close> holds instances of both classes.\<close>

datatype any_platform = Static platform | Moving moving_platform

definition any_rect :: "any_platform \<Rightarrow> rect" where
  "any_rect p = (case p of Static s \<Rightarrow> plat_rect s | Moving m \<Rightarrow> plat_rect m)"

section \<open>Ball\<close>

record ball =
  ball_original_pos :: point
  ball_pos :: point
  ball_velocity :: point
  ball_base_radius :: real
  ball_radius :: real
  ball_on_ground :: bool
  ball_scale_factor :: real
  ball_scale_timer :: int
  ball_rotation :: real
  ball_lives :: int
  ball_gravity :: real
  ball_jump_force :: real
  ball_move_speed :: real
  ball_friction :: real

definition Ball_init :: "real \<Rightarrow> real \<Rightarrow> ball" where
  "Ball_init a b =
     \<lparr>ball_original_pos = (a, b), ball_pos = (a, b), ball_velocity = (0, 0),
      ball_base_radius = 15, ball_radius = 15, ball_on_ground = False,
      ball_scale_factor = 1, ball_scale_timer = 0, ball_rotation = 0, ball_lives = 2,
      ball_gravity = 5 / 10, ball_jump_force = - 12, ball_move_speed = 5,
      ball_friction = 8 / 10\<rparr>"

definition apply_powerup :: "string \<Rightarrow> ball \<Rightarrow> ball" where
  "apply_powerup power_type b =
     (let b1 = (if power_type = ''grow''
                then (let b' = b\<lparr>ball_scale_factor := 2\<rparr>
                      in if ball_lives b' < 2 then b'\<lparr>ball_lives := ball_lives b' + 1\<rparr> else b')
                else (let b' = b\<lparr>ball_scale_factor := 1 / 2\<rparr>
                      in b'\<lparr>ball_lives := ball_lives b' - 1\<rparr>))
      in b1\<lparr>ball_scale_timer := 300\<rparr>)"

definition Ball_update :: "ball \<Rightarrow> ball" where
  "Ball_update b0 =
     (let b1 = (if ball_scale_timer b0 > 0
                then (let b' = b0\<lparr>ball_scale_timer := ball_scale_timer b0 - 1\<rparr>
                      in if ball_scale_timer b' = 0 then b'\<lparr>ball_scale_factor := 1\<rparr> else b')
                else b0);
          scale_matrix = create_scale_matrix (ball_scale_factor b1) (ball_scale_factor b1);
          scaled_radius_point = apply_transformation scale_matrix (ball_base_radius b1, 0);
          b2 = b1\<lparr>ball_radius := \<bar>fst scaled_radius_point\<bar>\<rparr>;
          b3 = (if \<not> ball_on_ground b2
                then b2\<lparr>ball_velocity :=
                          (fst (ball_velocity b2), snd (ball_velocity b2) + ball_gravity b2)\<rparr>
                else b2);
          b4 = b3\<lparr>ball_velocity :=
                    (fst (ball_velocity b3) * ball_friction b3, snd (ball_velocity b3))\<rparr>;
          b5 = (if \<bar>fst (ball_velocity b4)\<bar> > 1 / 10
                then b4\<lparr>ball_rotation := ball_rotation b4 + fst (ball_velocity b4) * (1 / 10)\<rparr>
                else b4);
          translation_matrix =
            create_translation_matrix (fst (ball_velocity b5)) (snd (ball_velocity b5));
          b6 = b5\<lparr>ball_pos := apply_transformation translation_matrix (ball_pos b5)\<rparr>
      in b6\<lparr>ball_on_ground := False\<rparr>)"

definition move_left :: "ball \<Rightarrow> ball" where
  "move_left b = b\<lparr>ball_velocity := (- ball_move_speed b, snd (ball_velocity b))\<rparr>"

definition move_right :: "ball \<Rightarrow> ball" where
  "move_right b = b\<lparr>ball_velocity := (ball_move_speed b, snd (ball_velocity b))\<rparr>"

definition jump :: "ball \<Rightarrow> ball" where
  "jump b = (if ball_on_ground b
             then b\<lparr>ball_velocity := (fst (ball_velocity b), ball_jump_force b)\<rparr> else b)"

text \<open>The square that every collision test builds around the avatar:
  \<^verbatim>\<open>pygame.Rect(pos[0] - radius, pos[1] - radius, radius * 2, radius * 2)\<close>.\<close>

definition ball_rect :: "ball \<Rightarrow> rect" where
  "ball_rect b =
     Rect (fst (ball_pos b) - ball_radius b) (snd (ball_pos b) - ball_radius b)
          (ball_radius b * 2) (ball_radius b * 2)"

subsection \<open>The collision pass\<close>

definition overlap_left :: "ball \<Rightarrow> rect \<Rightarrow> real" where
  "overlap_left b r = (fst (ball_pos b) + ball_radius b) - of_int (rect_left r)"

definition overlap_right :: "ball \<Rightarrow> rect \<Rightarrow> real" where
  "overlap_right b r = of_int (rect_right r) - (fst (ball_pos b) - ball_radius b)"

definition overlap_top :: "ball \<Rightarrow> rect \<Rightarrow> real" where
  "overlap_top b r = (snd (ball_pos b) + ball_radius b) - of_int (rect_top r)"

definition overlap_bottom :: "ball \<Rightarrow> rect \<Rightarrow> real" where
  "overlap_bottom b r = of_int (rect_bottom r) - (snd (ball_pos b) - ball_radius b)"

definition min_overlap :: "ball \<Rightarrow> rect \<Rightarrow> real" where
  "min_overlap b r =
     min (min (min (overlap_left b r) (overlap_right b r)) (overlap_top b r)) (overlap_bottom b r)"

text \<open>\<^verbatim>\<open>platform_velocity\<close>: the platform's last displacement when it is a
  \<^verbatim>\<open>MovingPlatform\<close>, \<^verbatim>\<open>[0, 0]\<close> otherwise.\<close>

definition platform_velocity :: "any_platform \<Rightarrow> point" where
  "platform_velocity p = (case p of Static s \<Rightarrow> (0, 0) | Moving m \<Rightarrow> mp_velocity m)"

text \<open>The chain \<^verbatim>\<open>if min_overlap == overlap_top ... elif ...\<close> of the loop body.\<close>

definition resolve_overlap :: "any_platform \<Rightarrow> ball \<Rightarrow> ball" where
  "resolve_overlap p b =
     (let r = any_rect p; pv = platform_velocity p
      in if min_overlap b r = overlap_top b r \<and> snd (ball_velocity b) \<ge> 0 then
           (let b1 = b\<lparr>ball_pos := (fst (ball_pos b), of_int (rect_top r) - ball_radius b)\<rparr>;
                b2 = b1\<lparr>ball_velocity := (fst (ball_velocity b1), 0)\<rparr>;
                b3 = b2\<lparr>ball_on_ground := True\<rparr>
            in case p of
                 Static s \<Rightarrow> b3
               | Moving m \<Rightarrow>
                  (let b4 = b3\<lparr>ball_velocity :=
                                 (fst (ball_velocity b3) + fst pv * (8 / 10), snd (ball_velocity b3))\<rparr>;
                       b5 = b4\<lparr>ball_velocity :=
                                 (fst (ball_velocity b4), snd (ball_velocity b4) + snd pv * (8 / 10))\<rparr>
                   in if mp_move_type m = ''vertical''
                      then (let b6 = b5\<lparr>ball_pos :=
                                          (fst (ball_pos b5), of_int (rect_top r) - ball_radius b5)\<rparr>
                            in b6\<lparr>ball_velocity := (fst (ball_velocity b6), snd pv)\<rparr>)
                      else b5))
         else if min_overlap b r = overlap_bottom b r \<and> snd (ball_velocity b) \<le> 0 then
           (let b1 = b\<lparr>ball_pos := (fst (ball_pos b), of_int (rect_bottom r) + ball_radius b)\<rparr>;
                b2 = b1\<lparr>ball_velocity := (fst (ball_velocity b1), 0)\<rparr>
            in case p of
                 Static s \<Rightarrow> b2
               | Moving m \<Rightarrow>
                  b2\<lparr>ball_velocity :=
                       (fst (ball_velocity b2), snd (ball_velocity b2) + snd pv * (5 / 10))\<rparr>)
         else if min_overlap b r = overlap_left b r \<and> fst (ball_velocity b) \<ge> 0 then
           (let b1 = b\<lparr>ball_pos := (of_int (rect_left r) - ball_radius b, snd (ball_pos b))\<rparr>;
                b2 = b1\<lparr>ball_velocity := (0, snd (ball_velocity b1))\<rparr>
            in case p of
                 Static s \<Rightarrow> b2
               | Moving m \<Rightarrow>
                  b2\<lparr>ball_velocity :=
                       (fst (ball_velocity b2) + fst pv * (3 / 10), snd (ball_velocity b2))\<rparr>)
         else if min_overlap b r = overlap_right b r \<and> fst (ball_velocity b) \<le> 0 then
           (let b1 = b\<lparr>ball_pos := (of_int (rect_right r) + ball_radius b, snd (ball_pos b))\<rparr>;
                b2 = b1\<lparr>ball_velocity := (0, snd (ball_velocity b1))\<rparr>
            in case p of
                 Static s \<Rightarrow> b2
               | Moving m \<Rightarrow>
                  b2\<lparr>ball_velocity :=
                       (fst (ball_velocity b2) + fst pv * (3 / 10), snd (ball_velocity b2))\<rparr>)
         else b)"

text \<open>The \<^verbatim>\<open>Additional check for fast-moving platforms\<close> of the loop body.\<close>

definition fast_platform_check :: "any_platform \<Rightarrow> ball \<Rightarrow> ball" where
  "fast_platform_check p b =
     (case p of
        Static s \<Rightarrow> b
      | Moving m \<Rightarrow>
         (let pv = platform_velocity p
          in if \<bar>fst pv\<bar> > 5 \<or> \<bar>snd pv\<bar> > 5 then
               (let next_pos = (fst (ball_pos b) + fst (ball_velocity b),
                                snd (ball_pos b) + snd (ball_velocity b));
                    next_rect = Rect (fst next_pos - ball_radius b) (snd next_pos - ball_radius b)
                                     (ball_radius b * 2) (ball_radius b * 2)
                in if colliderect next_rect (plat_rect m) then
                     (if mp_move_type m = ''vertical''
                      then b\<lparr>ball_velocity := (fst (ball_velocity b), snd pv)\<rparr>
                      else if mp_move_type m = ''horizontal''
                      then b\<lparr>ball_velocity := (fst pv * (8 / 10), snd (ball_velocity b))\<rparr>
                      else b)
                   else b)
             else b))"

text \<open>\<^verbatim>\<open>Update ball rect after position change\<close>: the two assignments
  \<^verbatim>\<open>ball_rect.x = pos[0] - radius\<close> and \<^verbatim>\<open>ball_rect.y = pos[1] - radius\<close>, which
  store floats into the attributes of the rectangle and keep its size.\<close>

definition update_ball_rect :: "rect \<Rightarrow> ball \<Rightarrow> rect" where
  "update_ball_rect br b =
     br\<lparr>rect_x := rect_attr_int (fst (ball_pos b) - ball_radius b),
        rect_y := rect_attr_int (snd (ball_pos b) - ball_radius b)\<rparr>"

text \<open>One iteration of \<^verbatim>\<open>for platform in platforms\<close>; the loop carries the avatar
  and the local \<^verbatim>\<open>ball_rect\<close>, whose corner is re-assigned after each resolution.\<close>

definition collide_platform :: "ball \<times> rect \<Rightarrow> any_platform \<Rightarrow> ball \<times> rect" where
  "collide_platform s p =
     (case s of (b, br) \<Rightarrow>
        if colliderect br (any_rect p) then
          (let b1 = resolve_overlap p b;
               br1 = update_ball_rect br b1
           in (fast_platform_check p b1, br1))
        else (b, br))"

text \<open>
  \<^verbatim>\<open>Ball.handle_platform_collision\<close> returns nothing; its effect is the state of the
  objects it was given. The model returns the avatar after the loop together with the
  platform objects, which the loop only reads.
\<close>

definition handle_platform_collision :: "any_platform list \<Rightarrow> ball \<Rightarrow> ball \<times> any_platform list" where
  "handle_platform_collision platforms b =
     (fst (foldl collide_platform (b, ball_rect b) platforms), platforms)"

text \<open>The claim about landing speaks of the avatar's bounding square, of side twice
  the radius, overlapping a rectangle: the overlap of the two regions of the plane.\<close>

definition bounding_square_overlaps :: "ball \<Rightarrow> rect \<Rightarrow> bool" where
  "bounding_square_overlaps b r =
     (fst (ball_pos b) - ball_radius b < of_int (rect_right r)
      \<and> fst (ball_pos b) + ball_radius b > of_int (rect_left r)
      \<and> snd (ball_pos b) - ball_radius b < of_int (rect_bottom r)
      \<and> snd (ball_pos b) + ball_radius b > of_int (rect_top r))"

section \<open>Collectibles\<close>

record powerup =
  pu_x :: real
  pu_y :: real
  pu_power_type :: string
  pu_width :: real
  pu_height :: real
  pu_collected :: bool

definition PowerUp_init :: "real \<Rightarrow> real \<Rightarrow> string \<Rightarrow> powerup" where
  "PowerUp_init a b power_type =
     \<lparr>pu_x = a, pu_y = b, pu_power_type = power_type, pu_width = 20, pu_height = 20,
      pu_collected = False\<rparr>"

record coin =
  coin_x :: real
  coin_y :: real
  coin_radius :: real
  coin_collected :: bool
  coin_rotation :: real

definition Coin_init :: "real \<Rightarrow> real \<Rightarrow> coin" where
  "Coin_init a b =
     \<lparr>coin_x = a, coin_y = b, coin_radius = 10, coin_collected = False, coin_rotation = 0\<rparr>"

definition Coin_update :: "coin \<Rightarrow> coin" where
  "Coin_update c = c\<lparr>coin_rotation := coin_rotation c + 1 / 10\<rparr>"

record flag =
  flag_x :: real
  flag_y :: real
  flag_pole_height :: real
  flag_flag_width :: real
  flag_flag_height :: real
  flag_wave_time :: real
  flag_collected :: bool

definition Flag_init :: "real \<Rightarrow> real \<Rightarrow> flag" where
  "Flag_init a b =
     \<lparr>flag_x = a, flag_y = b, flag_pole_height = 100, flag_flag_width = 60,
      flag_flag_height = 40, flag_wave_time = 0, flag_collected = False\<rparr>"

definition Flag_update :: "flag \<Rightarrow> flag" where
  "Flag_update f = f\<lparr>flag_wave_time := flag_wave_time f + 1 / 10\<rparr>"

section \<open>Game\<close>

text \<open>The session state of \<^verbatim>\<open>Game\<close>, without the drawing surfaces, the clock and
  the font. \<^verbatim>\<open>all_platforms\<close> is a list of the very objects of \<^verbatim>\<open>platforms\<close> and
  \<^verbatim>\<open>moving_platforms\<close>, so it is computed from the two when it is read.\<close>

record game =
  game_width :: real
  game_height :: real
  game_current_level :: int
  game_max_level :: int
  game_ball :: ball
  game_platforms :: "platform list"
  game_moving_platforms :: "moving_platform list"
  game_coins :: "coin list"
  game_powerups :: "powerup list"
  game_flag :: flag
  game_camera :: camera
  game_score :: int
  game_level_complete :: bool
  game_frame_alpha :: real

definition all_platforms :: "game \<Rightarrow> any_platform list" where
  "all_platforms g = map Static (game_platforms g) @ map Moving (game_moving_platforms g)"

definition create_platforms :: "game \<Rightarrow> platform list" where
  "create_platforms g =
     (if game_current_level g = 1 then
        [Platform_init 0 550 200 50, Platform_init 250 450 150 20,
         Platform_init 450 350 100 20, Platform_init 600 250 120 20,
         Platform_init 1150 200 150 20, Platform_init 1350 350 100 20,
         Platform_init 1750 500 150 50]
      else if game_current_level g = 2 then
        [Platform_init 0 550 200 50, Platform_init 300 450 150 20,
         Platform_init 500 350 60 20, Platform_init 580 350 60 20,
         Platform_init 700 250 120 20,
         Platform_init 900 350 50 20, Platform_init 580 350 50 20,
         Platform_init 1100 450 150 20,
         Platform_init 1300 350 40 20, Platform_init 1360 350 40 20,
         Platform_init 1500 250 120 20, Platform_init 1700 350 100 20,
         Platform_init 1850 500 150 50]
      else
        [Platform_init 0 550 200 50, Platform_init 250 450 150 20,
         Platform_init 450 350 100 20, Platform_init 650 250 120 20,
         Platform_init 850 150 100 20, Platform_init 1050 250 120 20,
         Platform_init 1250 350 100 20, Platform_init 1450 450 150 20,
         Platform_init 1650 350 100 20, Platform_init 1850 500 150 50])"

definition create_moving_platforms :: "game \<Rightarrow> moving_platform list" where
  "create_moving_platforms g =
     (if game_current_level g = 1 then
        [MovingPlatform_init 800 400 100 20 ''horizontal'' (15 / 10) 80,
         MovingPlatform_init 950 300 80 20 ''vertical'' 1 60,
         MovingPlatform_init 1500 300 90 20 ''circular'' (8 / 10) 100,
         MovingPlatform_init 1600 450 100 20 ''horizontal'' 2 120]
      else if game_current_level g = 2 then
        [MovingPlatform_init 400 400 100 20 ''vertical'' 1 80,
         MovingPlatform_init 600 300 80 20 ''horizontal'' 1 60,
         MovingPlatform_init 800 200 90 20 ''circular'' (8 / 10) 100,
         MovingPlatform_init 1200 400 100 20 ''vertical'' 1 120,
         MovingPlatform_init 1400 300 80 20 ''horizontal'' 1 80]
      else
        [MovingPlatform_init 350 400 100 20 ''circular'' (15 / 10) 80,
         MovingPlatform_init 550 300 80 20 ''vertical'' 1 60,
         MovingPlatform_init 750 200 90 20 ''horizontal'' (8 / 10) 100,
         MovingPlatform_init 1150 300 100 20 ''circular'' 2 120,
         MovingPlatform_init 1350 400 80 20 ''vertical'' (15 / 10) 80,
         MovingPlatform_init 1550 300 90 20 ''horizontal'' 1 60])"

definition create_coins :: "game \<Rightarrow> coin list" where
  "create_coins g =
     (if game_current_level g = 1 then
        [Coin_init 320 410, Coin_init 500 310, Coin_init 660 210, Coin_init 850 360,
         Coin_init 950 260, Coin_init 1220 160, Coin_init 1400 310, Coin_init 1550 260,
         Coin_init 1820 460]
      else if game_current_level g = 2 then
        [Coin_init 350 410, Coin_init 550 310, Coin_init 750 210, Coin_init 950 310,
         Coin_init 1150 410, Coin_init 1350 310, Coin_init 1550 210, Coin_init 1750 310,
         Coin_init 1900 460]
      else
        [Coin_init 300 410, Coin_init 500 310, Coin_init 700 210, Coin_init 900 110,
         Coin_init 1100 210, Coin_init 1300 310, Coin_init 1500 410, Coin_init 1700 310,
         Coin_init 1900 460])"

definition create_powerups :: "game \<Rightarrow> powerup list" where
  "create_powerups g =
     (if game_current_level g = 1 then
        [PowerUp_init 300 430 ''shrink'', PowerUp_init 650 230 ''grow'',
         PowerUp_init 900 380 ''shrink'', PowerUp_init 1200 180 ''grow'',
         PowerUp_init 1450 330 ''shrink'']
      else if game_current_level g = 2 then
        [PowerUp_init 450 330 ''shrink'', PowerUp_init 850 330 ''shrink'',
         PowerUp_init 1250 330 ''shrink'', PowerUp_init 1000 430 ''grow'',
         PowerUp_init 1600 430 ''grow'']
      else
        [PowerUp_init 300 430 ''grow'', PowerUp_init 600 330 ''shrink'',
         PowerUp_init 900 130 ''grow'', PowerUp_init 1200 230 ''shrink'',
         PowerUp_init 1500 430 ''grow'', PowerUp_init 1800 330 ''shrink''])"

definition reset_level :: "game \<Rightarrow> game" where
  "reset_level g =
     g\<lparr>game_ball := Ball_init 100 400,
       game_platforms := create_platforms g,
       game_moving_platforms := create_moving_platforms g,
       game_coins := create_coins g,
       game_powerups := create_powerups g,
       game_flag := Flag_init 1850 450,
       game_camera := Camera_init (game_width g) (game_height g),
       game_score := 0,
       game_level_complete := False,
       game_frame_alpha := 0\<rparr>"

text \<open>\<^verbatim>\<open>Game.__init__\<close> sets the window size and the level numbers and calls
  \<^verbatim>\<open>reset_level\<close>, which assigns every other attribute.\<close>

definition Game_init :: game where
  "Game_init =
     reset_level
       \<lparr>game_width = 1000, game_height = 600, game_current_level = 1, game_max_level = 3,
        game_ball = Ball_init 100 400, game_platforms = [], game_moving_platforms = [],
        game_coins = [], game_powerups = [], game_flag = Flag_init 1850 450,
        game_camera = Camera_init 1000 600, game_score = 0, game_level_complete = False,
        game_frame_alpha = 0\<rparr>"

definition update_camera :: "real \<Rightarrow> real \<Rightarrow> game \<Rightarrow> game" where
  "update_camera u1 u2 g =
     (let b = game_ball g;
          c1 = set_target (fst (ball_pos b)) (snd (ball_pos b)) (game_camera g);
          c2 = (if ball_scale_factor b > 1 then set_zoom_target (8 / 10) c1
                else if ball_scale_factor b < 1 then set_zoom_target (13 / 10) c1
                else set_zoom_target 1 c1);
          c3 = (if ball_on_ground b \<and> \<bar>snd (ball_velocity b)\<bar> > 8
                then add_screen_shake 3 10 c2 else c2)
      in g\<lparr>game_camera := Camera_update u1 u2 c3\<rparr>)"

subsection \<open>check\_collisions\<close>

definition coin_rect :: "coin \<Rightarrow> rect" where
  "coin_rect c = Rect (coin_x c - coin_radius c) (coin_y c - coin_radius c)
                      (coin_radius c * 2) (coin_radius c * 2)"

text \<open>The loop over the coins: the coins already visited, and the session.\<close>

fun coins_loop :: "rect \<Rightarrow> coin list \<Rightarrow> game \<Rightarrow> coin list \<times> game" where
  "coins_loop br [] g = ([], g)"
| "coins_loop br (c # cs) g =
     (if \<not> coin_collected c \<and> colliderect br (coin_rect c)
      then (let g1 = g\<lparr>game_score := game_score g + 10\<rparr>;
                g2 = g1\<lparr>game_camera := add_screen_shake 1 5 (game_camera g1)\<rparr>;
                (cs', g') = coins_loop br cs g2
            in (c\<lparr>coin_collected := True\<rparr> # cs', g'))
      else (let (cs', g') = coins_loop br cs g in (c # cs', g')))"

definition powerup_rect :: "powerup \<Rightarrow> rect" where
  "powerup_rect p = Rect (pu_x p) (pu_y p) (pu_width p) (pu_height p)"

fun powerups_loop :: "rect \<Rightarrow> powerup list \<Rightarrow> game \<Rightarrow> powerup list \<times> game" where
  "powerups_loop br [] g = ([], g)"
| "powerups_loop br (p # ps) g =
     (if \<not> pu_collected p \<and> colliderect br (powerup_rect p)
      then (let g1 = g\<lparr>game_ball := apply_powerup (pu_power_type p) (game_ball g)\<rparr>;
                g2 = g1\<lparr>game_camera := add_screen_shake 2 8 (game_camera g1)\<rparr>;
                (ps', g') = powerups_loop br ps g2
            in (p\<lparr>pu_collected := True\<rparr> # ps', g'))
      else (let (ps', g') = powerups_loop br ps g in (p # ps', g')))"

definition flag_rect :: "flag \<Rightarrow> rect" where
  "flag_rect f = Rect (flag_x f - 10) (flag_y f - flag_pole_height f)
                      (flag_flag_width f + 20) (flag_pole_height f + 20)"

definition check_flag :: "rect \<Rightarrow> game \<Rightarrow> game" where
  "check_flag br g =
     (if \<not> flag_collected (game_flag g) then
        (if colliderect br (flag_rect (game_flag g)) then
           (let g1 = g\<lparr>game_flag := (game_flag g)\<lparr>flag_collected := True\<rparr>\<rparr>;
                g2 = g1\<lparr>game_level_complete := True\<rparr>;
                g3 = g2\<lparr>game_score := game_score g2 + 100\<rparr>;
                g4 = g3\<lparr>game_camera := add_screen_shake 5 30 (game_camera g3)\<rparr>
            in if game_current_level g4 < game_max_level g4 then
                 (let g5 = g4\<lparr>game_current_level := game_current_level g4 + 1\<rparr>;
                      g6 = reset_level g5;
                      g7 = g6\<lparr>game_level_complete := False\<rparr>
                  in g7\<lparr>game_camera := add_screen_shake 8 45 (game_camera g7)\<rparr>)
               else g4)
         else g)
      else g)"

definition check_collisions :: "game \<Rightarrow> game" where
  "check_collisions g =
     (let br = ball_rect (game_ball g);
          (coins', g1) = coins_loop br (game_coins g) g;
          g2 = g1\<lparr>game_coins := coins'\<rparr>;
          (powerups', g3) = powerups_loop br (game_powerups g2) g2;
          g4 = g3\<lparr>game_powerups := powerups'\<rparr>
      in check_flag br g4)"

subsection \<open>One iteration of the loop of run\<close>

datatype key = K_r | K_LEFT | K_a | K_RIGHT | K_d | K_SPACE | K_UP | K_other

datatype event = QUIT | KEYDOWN key | OTHER_EVENT

text \<open>What one iteration reads from outside: the event queue, the keys held down, and
  the two random draws of the camera.\<close>

record frame_input =
  fi_events :: "event list"
  fi_keys :: "key \<Rightarrow> bool"
  fi_u1 :: real
  fi_u2 :: real

definition handle_event :: "bool \<times> game \<Rightarrow> event \<Rightarrow> bool \<times> game" where
  "handle_event s e =
     (case s of (running, g) \<Rightarrow>
        (case e of
           QUIT \<Rightarrow> (False, g)
         | KEYDOWN k \<Rightarrow>
             (if k = K_r \<and> game_level_complete g \<and> game_current_level g = game_max_level g
              then (running, reset_level (g\<lparr>game_current_level := 1\<rparr>))
              else if ball_lives (game_ball g) \<le> 0
              then (let g1 = g\<lparr>game_score := 0\<rparr>;
                        g2 = reset_level g1
                    in (running, g2\<lparr>game_camera := add_screen_shake 10 60 (game_camera g2)\<rparr>))
              else (running, g))
         | OTHER_EVENT \<Rightarrow> (running, g)))"

definition handle_keys :: "(key \<Rightarrow> bool) \<Rightarrow> game \<Rightarrow> game" where
  "handle_keys keys g =
     (let g1 = (if keys K_LEFT \<or> keys K_a
                then g\<lparr>game_ball := move_left (game_ball g)\<rparr> else g);
          g2 = (if keys K_RIGHT \<or> keys K_d
                then g1\<lparr>game_ball := move_right (game_ball g1)\<rparr> else g1)
      in if keys K_SPACE \<or> keys K_UP
         then g2\<lparr>game_ball := jump (game_ball g2)\<rparr> else g2)"

fun update_moving_platforms :: "moving_platform list \<Rightarrow> error + moving_platform list" where
  "update_moving_platforms [] = Inr []"
| "update_moving_platforms (p # ps) =
     (case MovingPlatform_update p of
        Inl e \<Rightarrow> Inl e
      | Inr p' \<Rightarrow>
         (case update_moving_platforms ps of
            Inl e \<Rightarrow> Inl e
          | Inr ps' \<Rightarrow> Inr (p' # ps')))"

text \<open>The fall below the playfield, at the end of an iteration.\<close>

definition check_fall :: "game \<Rightarrow> game" where
  "check_fall g =
     (if snd (ball_pos (game_ball g)) > game_height g + 100 then
        (let b1 = (game_ball g)\<lparr>ball_pos := ball_original_pos (game_ball g)\<rparr>;
             b2 = b1\<lparr>ball_velocity := (0, 0)\<rparr>;
             b3 = b2\<lparr>ball_lives := ball_lives b2 - 1\<rparr>;
             g1 = g\<lparr>game_ball := b3\<rparr>
         in if ball_lives (game_ball g1) \<le> 0 then
              (let g2 = g1\<lparr>game_score := 0\<rparr>;
                   g3 = reset_level g2
               in g3\<lparr>game_camera := add_screen_shake 10 60 (game_camera g3)\<rparr>)
            else g1)
      else g)"

text \<open>The body of \<^verbatim>\<open>while running\<close>, up to the drawing, which changes no state of
  the session. The result is the value of \<^verbatim>\<open>running\<close> and the session.\<close>

definition frame :: "frame_input \<Rightarrow> game \<Rightarrow> error + (bool \<times> game)" where
  "frame inp g0 =
     (case foldl handle_event (True, g0) (fi_events inp) of (running, g1) \<Rightarrow>
        (let g2 = handle_keys (fi_keys inp) g1
         in if \<not> game_level_complete g2 then
              (let g3 = g2\<lparr>game_ball := Ball_update (game_ball g2)\<rparr>;
                   g4 = g3\<lparr>game_ball :=
                            fst (handle_platform_collision (all_platforms g3) (game_ball g3))\<rparr>
               in case update_moving_platforms (game_moving_platforms g4) of
                    Inl e \<Rightarrow> Inl e
                  | Inr mps \<Rightarrow>
                     (let g5 = g4\<lparr>game_moving_platforms := mps\<rparr>;
                          g6 = g5\<lparr>game_coins := map Coin_update (game_coins g5)\<rparr>;
                          g7 = g6\<lparr>game_flag := Flag_update (game_flag g6)\<rparr>;
                          g8 = check_collisions g7;
                          g9 = update_camera (fi_u1 inp) (fi_u2 inp) g8
                      in Inr (running, check_fall g9)))
            else Inr (running, g2)))"

section \<open>Invariants used in the proofs\<close>

text \<open>The zoom and its target stay between the two bounds, and the rate of the zoom's
  interpolation is the constructor's.\<close>

definition zoom_ok :: "camera \<Rightarrow> bool" where
  "zoom_ok c =
     (1 / 2 \<le> cam_zoom c \<and> cam_zoom c \<le> 2
      \<and> 1 / 2 \<le> cam_target_zoom c \<and> cam_target_zoom c \<le> 2
      \<and> cam_zoom_lerp_speed c = 5 / 100)"

text \<open>What the collision pass does not touch of the avatar: every attribute but the
  position, the velocity and the on-ground flag.\<close>

definition same_but_motion :: "ball \<Rightarrow> ball \<Rightarrow> bool" where
  "same_but_motion b b' =
     (ball_original_pos b' = ball_original_pos b
      \<and> ball_base_radius b' = ball_base_radius b
      \<and> ball_radius b' = ball_radius b
      \<and> ball_scale_factor b' = ball_scale_factor b
      \<and> ball_scale_timer b' = ball_scale_timer b
      \<and> ball_rotation b' = ball_rotation b
      \<and> ball_lives b' = ball_lives b
      \<and> ball_gravity b' = ball_gravity b
      \<and> ball_jump_force b' = ball_jump_force b
      \<and> ball_move_speed b' = ball_move_speed b
      \<and> ball_friction b' = ball_friction b)"

section \<open>Transformations applied to a point\<close>

lemmas matrix_defs = apply_transformation_def np_dot_vec_def np_dot_def row_dot_def mat_col_def
  create_translation_matrix_def create_scale_matrix_def create_rotation_matrix_def
  combine_matrices_def create_view_matrix_def

lemma apply_view_matrix:
  "apply_transformation (create_view_matrix cx cy z) p = (z * (fst p - cx), z * (snd p - cy))"
  by (simp add: matrix_defs Let_def algebra_simps)

lemma apply_translation:
  "apply_transformation (create_translation_matrix dx dy) p = (fst p + dx, snd p + dy)"
  by (simp add: matrix_defs Let_def)

lemma apply_scale:
  "apply_transformation (create_scale_matrix sx sy) p = (sx * fst p, sy * snd p)"
  by (simp add: matrix_defs Let_def)

lemma apply_rotation:
  "apply_transformation (create_rotation_matrix a) p =
     (cos a * fst p - sin a * snd p, sin a * fst p + cos a * snd p)"
  by (simp add: matrix_defs Let_def)

section \<open>The camera\<close>

lemma screen_to_world_value:
  "cam_zoom c \<noteq> 0 \<Longrightarrow>
   screen_to_world c q =
     Inr (fst q / cam_zoom c + fst (cam_position c), snd q / cam_zoom c + snd (cam_position c))"
  by (simp add: screen_to_world_def matrix_defs Let_def)

lemma Camera_update_fields:
  "cam_zoom (Camera_update u1 u2 c) = lerp (cam_zoom c) (cam_target_zoom c) (cam_zoom_lerp_speed c)"
  "cam_target_zoom (Camera_update u1 u2 c) = cam_target_zoom c"
  "cam_zoom_lerp_speed (Camera_update u1 u2 c) = cam_zoom_lerp_speed c"
  by (simp_all add: Camera_update_def Let_def)

lemma Camera_update_view:
  "cam_view_matrix (Camera_update u1 u2 c) =
     create_view_matrix (fst (cam_position (Camera_update u1 u2 c)) + fst (shake_offset u1 u2 c))
                        (snd (cam_position (Camera_update u1 u2 c)) + snd (shake_offset u1 u2 c))
                        (cam_zoom (Camera_update u1 u2 c))"
  by (simp add: Camera_update_def Let_def shake_offset_def)

lemma zoom_ok_init: "zoom_ok (Camera_init w h)"
  by (simp add: zoom_ok_def Camera_init_def)

lemma lerp_between:
  assumes "s = 5 / 100" "lo \<le> z" "z \<le> hi" "lo \<le> t" "t \<le> hi"
  shows "lo \<le> lerp z t s \<and> lerp z t s \<le> hi"
proof -
  have "lerp z t s = (95 / 100) * z + (5 / 100) * t"
    by (simp add: lerp_def assms(1) field_simps)
  with assms show ?thesis by simp
qed

lemma zoom_ok_do: "zoom_ok c \<Longrightarrow> zoom_ok (camera_do c call)"
proof (cases call)
  case (Update u1 u2)
  assume ok: "zoom_ok c"
  then have "1 / 2 \<le> lerp (cam_zoom c) (cam_target_zoom c) (cam_zoom_lerp_speed c)
      \<and> lerp (cam_zoom c) (cam_target_zoom c) (cam_zoom_lerp_speed c) \<le> 2"
    by (intro lerp_between) (simp_all add: zoom_ok_def)
  with ok Update show ?thesis
    by (simp add: zoom_ok_def Camera_update_fields)
qed (simp_all add: zoom_ok_def set_target_def set_zoom_target_def add_screen_shake_def Let_def)

lemma zoom_ok_run: "zoom_ok c \<Longrightarrow> zoom_ok (camera_run c calls)"
  unfolding camera_run_def
  by (induction calls arbitrary: c) (simp_all add: zoom_ok_do)

text \<open>
  Claim C4. For a camera that the constructor made and any calls of its methods drove,
  directly after an \<^verbatim>\<open>update\<close>: \<^verbatim>\<open>world_to_screen\<close> scales by the zoom the
  difference between the point and the position plus the shake offset of that update;
  \<^verbatim>\<open>screen_to_world\<close> divides by the zoom and adds the position, without the offset;
  so the round trip of a point \<open>p\<close> is \<open>p\<close> minus the offset, and it is \<open>p\<close>
  exactly when that offset is zero.
\<close>

theorem round_trip_differs_by_shake:
  "(let c0 = camera_run (Camera_init w h) calls;
        c = Camera_update u1 u2 c0;
        off = shake_offset u1 u2 c0
    in world_to_screen c p =
         (cam_zoom c * (fst p - (fst (cam_position c) + fst off)),
          cam_zoom c * (snd p - (snd (cam_position c) + snd off)))
     \<and> screen_to_world c q =
         Inr (fst q / cam_zoom c + fst (cam_position c), snd q / cam_zoom c + snd (cam_position c))
     \<and> screen_to_world c (world_to_screen c p) = Inr (fst p - fst off, snd p - snd off)
     \<and> (screen_to_world c (world_to_screen c p) = Inr p \<longleftrightarrow> off = (0, 0)))"
proof -
  define c0 where "c0 = camera_run (Camera_init w h) calls"
  define c where "c = Camera_update u1 u2 c0"
  define off where "off = shake_offset u1 u2 c0"
  have "zoom_ok c0"
    unfolding c0_def by (rule zoom_ok_run) (rule zoom_ok_init)
  then have "zoom_ok (camera_do c0 (Update u1 u2))"
    by (rule zoom_ok_do)
  then have nz: "cam_zoom c \<noteq> 0"
    by (auto simp: zoom_ok_def c_def)
  have fwd: "world_to_screen c p =
         (cam_zoom c * (fst p - (fst (cam_position c) + fst off)),
          cam_zoom c * (snd p - (snd (cam_position c) + snd off)))"
    by (simp add: world_to_screen_def c_def off_def Camera_update_view apply_view_matrix)
  have bwd: "screen_to_world c r =
         Inr (fst r / cam_zoom c + fst (cam_position c), snd r / cam_zoom c + snd (cam_position c))" for r
    by (rule screen_to_world_value [OF nz])
  have trip: "screen_to_world c (world_to_screen c p) = Inr (fst p - fst off, snd p - snd off)"
    using nz by (simp add: fwd bwd)
  have "(screen_to_world c (world_to_screen c p) = Inr p) = (off = (0, 0))"
    by (simp add: trip prod_eq_iff)
  with fwd bwd trip show ?thesis
    by (simp add: Let_def c0_def [symmetric] c_def [symmetric] off_def [symmetric])
qed

text \<open>
  Claim C5. \<^verbatim>\<open>set_zoom_target\<close> clamps its argument to the interval from 0.5 to 2.0.
  For a camera that the constructor made, after any sequence of calls of its methods
  (\<^verbatim>\<open>set_target\<close>, \<^verbatim>\<open>set_zoom_target\<close>, \<^verbatim>\<open>add_screen_shake\<close>, \<^verbatim>\<open>update\<close>, with any
  arguments) the zoom lies in that interval, and \<^verbatim>\<open>screen_to_world\<close> returns a point:
  its division by the zoom never raises.
\<close>

theorem zoom_stays_clamped:
  "cam_target_zoom (set_zoom_target z c) = (if z < 1 / 2 then 1 / 2 else if 2 < z then 2 else z)
   \<and> 1 / 2 \<le> cam_target_zoom (set_zoom_target z c)
   \<and> cam_target_zoom (set_zoom_target z c) \<le> 2
   \<and> 1 / 2 \<le> cam_zoom (camera_run (Camera_init w h) calls)
   \<and> cam_zoom (camera_run (Camera_init w h) calls) \<le> 2
   \<and> (\<exists>q. screen_to_world (camera_run (Camera_init w h) calls) p = Inr q)"
proof -
  have ok: "zoom_ok (camera_run (Camera_init w h) calls)"
    by (rule zoom_ok_run) (rule zoom_ok_init)
  then have nz: "cam_zoom (camera_run (Camera_init w h) calls) \<noteq> 0"
    by (auto simp: zoom_ok_def)
  have "cam_target_zoom (set_zoom_target z c) = (if z < 1 / 2 then 1 / 2 else if 2 < z then 2 else z)"
    by (simp add: set_zoom_target_def)
  moreover have "\<exists>q. screen_to_world (camera_run (Camera_init w h) calls) p = Inr q"
    using screen_to_world_value [OF nz] by blast
  ultimately show ?thesis
    using ok by (simp add: zoom_ok_def)
qed

section \<open>Power-ups and the scale timer\<close>

text \<open>
  Claim C6. A grow power-up sets the scale factor to 2 and adds a life only when there
  are fewer than 2, so a count of at most 2 stays at most 2; a shrink power-up sets the
  scale factor to 0.5 and takes one life; both set the scale timer to 300.
\<close>

theorem apply_powerup_effect:
  "ball_scale_factor (apply_powerup ''grow'' b) = 2
   \<and> ball_lives (apply_powerup ''grow'' b) = (if ball_lives b < 2 then ball_lives b + 1 else ball_lives b)
   \<and> (ball_lives b \<le> 2 \<longrightarrow> ball_lives (apply_powerup ''grow'' b) \<le> 2)
   \<and> ball_scale_factor (apply_powerup ''shrink'' b) = 1 / 2
   \<and> ball_lives (apply_powerup ''shrink'' b) = ball_lives b - 1
   \<and> ball_scale_timer (apply_powerup ''grow'' b) = 300
   \<and> ball_scale_timer (apply_powerup ''shrink'' b) = 300"
  by (simp add: apply_powerup_def Let_def)

theorem apply_powerup_effect_witness:
  "ball_lives (Ball_init 100 400) \<le> 2
   \<and> ball_lives (apply_powerup ''grow'' (Ball_init 100 400)) \<le> 2
   \<and> ball_lives (apply_powerup ''grow'' (apply_powerup ''shrink'' (Ball_init 100 400))) = 2
   \<and> ball_lives (apply_powerup ''shrink'' (Ball_init 100 400)) = 1"
  using apply_powerup_effect [of "Ball_init 100 400"]
    apply_powerup_effect [of "apply_powerup ''shrink'' (Ball_init 100 400)"]
  by (simp add: Ball_init_def)

lemma Ball_update_timer:
  "ball_scale_timer (Ball_update b) =
     (if ball_scale_timer b > 0 then ball_scale_timer b - 1 else ball_scale_timer b)"
  unfolding Ball_update_def Let_def
  by (cases "ball_scale_timer b > 0"; cases "ball_scale_timer b - 1 = 0") simp_all

lemma Ball_update_scale:
  "ball_base_radius (Ball_update b) = ball_base_radius b"
  "ball_scale_factor (Ball_update b) = (if ball_scale_timer b = 1 then 1 else ball_scale_factor b)"
  "ball_radius (Ball_update b) =
     \<bar>(if ball_scale_timer b = 1 then 1 else ball_scale_factor b) * ball_base_radius b\<bar>"
  unfolding Ball_update_def Let_def
  by (cases "ball_scale_timer b > 0"; cases "ball_scale_timer b - 1 = 0"; simp add: apply_scale)+

lemma Ball_update_radius:
  "ball_radius (Ball_update b) = \<bar>ball_base_radius b\<bar> * \<bar>ball_scale_factor (Ball_update b)\<bar>"
  unfolding Ball_update_scale(2,3) by (simp only: abs_mult mult.commute)

lemma countdown:
  "ball_scale_timer b = int k \<Longrightarrow> n < k \<Longrightarrow>
     ball_scale_timer ((Ball_update ^^ n) b) = int k - int n
     \<and> ball_scale_factor ((Ball_update ^^ n) b) = ball_scale_factor b
     \<and> ball_base_radius ((Ball_update ^^ n) b) = ball_base_radius b"
proof (induction n)
  case 0
  then show ?case by simp
next
  case (Suc n)
  then have "ball_scale_timer ((Ball_update ^^ n) b) = int k - int n"
    and "ball_scale_factor ((Ball_update ^^ n) b) = ball_scale_factor b"
    and "ball_base_radius ((Ball_update ^^ n) b) = ball_base_radius b"
    by simp_all
  with Suc.prems show ?case
    by (simp add: Ball_update_scale Ball_update_timer)
qed

lemma expiry:
  assumes "ball_scale_timer b = int (Suc k)"
  shows "ball_scale_timer ((Ball_update ^^ Suc k) b) = 0
     \<and> ball_scale_factor ((Ball_update ^^ Suc k) b) = 1
     \<and> ball_radius ((Ball_update ^^ Suc k) b) = \<bar>ball_base_radius b\<bar>"
proof -
  have "ball_scale_timer ((Ball_update ^^ k) b) = 1"
    and "ball_base_radius ((Ball_update ^^ k) b) = ball_base_radius b"
    using countdown [OF assms, of k] by simp_all
  then show ?thesis
    by (simp add: Ball_update_scale Ball_update_timer)
qed

text \<open>
  Claim C7. After a grow power-up the scale factor is 2 and the timer 300; through the
  next 299 calls of \<^verbatim>\<open>Ball.update\<close> the timer counts down and the factor stays 2; the
  300th call brings the timer to 0, the scale factor to exactly 1 and the radius to
  exactly the base radius. In every call the radius, recomputed as the absolute value of
  the image of \<^verbatim>\<open>[base_radius, 0]\<close> under the scale matrix, is the product of base
  radius and scale factor (neither being negative).
\<close>

theorem grow_expires:
  assumes "0 \<le> ball_base_radius b" and "0 \<le> ball_base_radius c" and "0 \<le> ball_scale_factor c"
  shows "ball_scale_factor (apply_powerup ''grow'' b) = 2
     \<and> ball_scale_timer (apply_powerup ''grow'' b) = 300
     \<and> (\<forall>n < 300. ball_scale_timer ((Ball_update ^^ n) (apply_powerup ''grow'' b)) = 300 - int n
                 \<and> ball_scale_factor ((Ball_update ^^ n) (apply_powerup ''grow'' b)) = 2)
     \<and> ball_scale_timer ((Ball_update ^^ 300) (apply_powerup ''grow'' b)) = 0
     \<and> ball_scale_factor ((Ball_update ^^ 300) (apply_powerup ''grow'' b)) = 1
     \<and> ball_radius ((Ball_update ^^ 300) (apply_powerup ''grow'' b)) = ball_base_radius b
     \<and> ball_radius (Ball_update c) = ball_base_radius c * ball_scale_factor (Ball_update c)"
proof -
  define g where "g = apply_powerup ''grow'' b"
  have g: "ball_scale_factor g = 2" "ball_scale_timer g = int (Suc 299)"
    "ball_base_radius g = ball_base_radius b"
    by (simp_all add: g_def apply_powerup_def Let_def)
  have run: "\<forall>n < 300. ball_scale_timer ((Ball_update ^^ n) g) = 300 - int n
                 \<and> ball_scale_factor ((Ball_update ^^ n) g) = 2"
    using countdown [OF g(2)] g(1) by simp
  have "ball_scale_timer ((Ball_update ^^ Suc 299) g) = 0
     \<and> ball_scale_factor ((Ball_update ^^ Suc 299) g) = 1
     \<and> ball_radius ((Ball_update ^^ Suc 299) g) = \<bar>ball_base_radius g\<bar>"
    by (rule expiry [OF g(2)])
  then have fin: "ball_scale_timer ((Ball_update ^^ 300) g) = 0
     \<and> ball_scale_factor ((Ball_update ^^ 300) g) = 1
     \<and> ball_radius ((Ball_update ^^ 300) g) = ball_base_radius b"
    using assms(1) g(3) by simp
  have "0 \<le> ball_scale_factor (Ball_update c)"
    using assms(3) by (simp add: Ball_update_scale)
  then have "ball_radius (Ball_update c) = ball_base_radius c * ball_scale_factor (Ball_update c)"
    using assms(2) by (simp only: Ball_update_radius abs_of_nonneg)
  with g run fin show ?thesis
    unfolding g_def by simp
qed

theorem grow_expires_witness:
  "0 \<le> ball_base_radius (Ball_init 100 400)
   \<and> 0 \<le> ball_scale_factor (apply_powerup ''grow'' (Ball_init 100 400))
   \<and> ball_scale_timer ((Ball_update ^^ 300) (apply_powerup ''grow'' (Ball_init 100 400))) = 0
   \<and> ball_scale_factor ((Ball_update ^^ 300) (apply_powerup ''grow'' (Ball_init 100 400))) = 1
   \<and> ball_radius ((Ball_update ^^ 300) (apply_powerup ''grow'' (Ball_init 100 400))) = 15
   \<and> ball_radius (Ball_update (apply_powerup ''grow'' (Ball_init 100 400))) = 30"
proof -
  have b: "0 \<le> ball_base_radius (Ball_init 100 400)"
    by (simp add: Ball_init_def)
  have c: "0 \<le> ball_base_radius (apply_powerup ''grow'' (Ball_init 100 400))"
    "0 \<le> ball_scale_factor (apply_powerup ''grow'' (Ball_init 100 400))"
    by (simp_all add: Ball_init_def apply_powerup_def Let_def)
  have v: "ball_base_radius (Ball_init 100 400) = 15"
    "ball_base_radius (apply_powerup ''grow'' (Ball_init 100 400)) = 15"
    "ball_scale_factor (Ball_update (apply_powerup ''grow'' (Ball_init 100 400))) = 2"
    by (simp_all add: Ball_init_def apply_powerup_def Let_def Ball_update_scale)
  show ?thesis
    using grow_expires [OF b c] b c(2) by (simp add: v)
qed

section \<open>Moving platforms\<close>

lemma new_position_frame:
  "new_position (p\<lparr>plat_x := a, plat_y := b, mp_velocity := v, plat_rect := r\<rparr>) = new_position p"
  by (simp add: new_position_def)

lemma new_position_total:
  assumes "mp_move_type p \<in> {''horizontal'', ''vertical'', ''circular''}"
  shows "\<exists>np. new_position p = Inr np"
  using assms by (auto simp: new_position_def Let_def)

lemma MovingPlatform_update_Inr:
  assumes "new_position (p\<lparr>mp_time := mp_time p + 2 / 100\<rparr>) = Inr np"
  shows "\<exists>p'. MovingPlatform_update p = Inr p'
     \<and> mp_velocity p' = (fst np - plat_x p, snd np - plat_y p)
     \<and> plat_x p' = fst np \<and> plat_y p' = snd np
     \<and> mp_time p' = mp_time p + 2 / 100
     \<and> mp_radius p' = mp_radius p \<and> mp_center_x p' = mp_center_x p \<and> mp_center_y p' = mp_center_y p
     \<and> plat_width p' = plat_width p \<and> plat_height p' = plat_height p
     \<and> mp_move_type p' = mp_move_type p"
  using assms
  by (cases np) (simp add: MovingPlatform_update_def Let_def apply_translation)

text \<open>
  Claim C3. For a platform of one of the three motion kinds, \<^verbatim>\<open>MovingPlatform.update\<close>
  returns; the velocity it stores is the new position minus the position before the
  call; the position it commits through the translation matrix is the computed new
  position itself, which is given by the time (advanced by 0.02) and by attributes that
  only the constructor assigns; and the same call on a platform that differs in its
  previous position, velocity and rectangle commits the same position.
\<close>

theorem update_velocity_and_position:
  assumes "mp_move_type p \<in> {''horizontal'', ''vertical'', ''circular''}"
  shows "\<exists>p' q' np. MovingPlatform_update p = Inr p'
      \<and> new_position (p\<lparr>mp_time := mp_time p + 2 / 100\<rparr>) = Inr np
      \<and> np = (let t = mp_time p + 2 / 100 in
               if mp_move_type p = ''horizontal''
               then (fst (mp_original_pos p) + sin (t * mp_speed p) * mp_distance p, snd (mp_original_pos p))
               else if mp_move_type p = ''vertical''
               then (fst (mp_original_pos p), snd (mp_original_pos p) + sin (t * mp_speed p) * mp_distance p)
               else (mp_center_x p + cos (t * mp_speed p) * mp_radius p - floordiv2 (plat_width p),
                     mp_center_y p + sin (t * mp_speed p) * mp_radius p - floordiv2 (plat_height p)))
      \<and> mp_velocity p' = (fst np - plat_x p, snd np - plat_y p)
      \<and> (plat_x p', plat_y p') = np
      \<and> mp_time p' = mp_time p + 2 / 100
      \<and> MovingPlatform_update (p\<lparr>plat_x := a, plat_y := b, mp_velocity := v, plat_rect := r\<rparr>) = Inr q'
      \<and> (plat_x q', plat_y q') = (plat_x p', plat_y p')"
proof -
  let ?t = "p\<lparr>mp_time := mp_time p + 2 / 100\<rparr>"
  let ?q = "p\<lparr>plat_x := a, plat_y := b, mp_velocity := v, plat_rect := r\<rparr>"
  have "mp_move_type ?t \<in> {''horizontal'', ''vertical'', ''circular''}"
    using assms by simp
  then obtain np where np: "new_position ?t = Inr np"
    using new_position_total by blast
  have formula: "np = (let t = mp_time p + 2 / 100 in
               if mp_move_type p = ''horizontal''
               then (fst (mp_original_pos p) + sin (t * mp_speed p) * mp_distance p, snd (mp_original_pos p))
               else if mp_move_type p = ''vertical''
               then (fst (mp_original_pos p), snd (mp_original_pos p) + sin (t * mp_speed p) * mp_distance p)
               else (mp_center_x p + cos (t * mp_speed p) * mp_radius p - floordiv2 (plat_width p),
                     mp_center_y p + sin (t * mp_speed p) * mp_radius p - floordiv2 (plat_height p)))"
    using np assms by (auto simp: new_position_def Let_def apply_rotation)
  have "new_position (?q\<lparr>mp_time := mp_time ?q + 2 / 100\<rparr>) = new_position ?t"
    by (simp add: new_position_def)
  then have nq: "new_position (?q\<lparr>mp_time := mp_time ?q + 2 / 100\<rparr>) = Inr np"
    using np by simp
  obtain p' where p': "MovingPlatform_update p = Inr p'"
    "mp_velocity p' = (fst np - plat_x p, snd np - plat_y p)"
    "plat_x p' = fst np" "plat_y p' = snd np" "mp_time p' = mp_time p + 2 / 100"
    using MovingPlatform_update_Inr [OF np] by blast
  obtain q' where q': "MovingPlatform_update ?q = Inr q'" "plat_x q' = fst np" "plat_y q' = snd np"
    using MovingPlatform_update_Inr [OF nq] by blast
  show ?thesis
    using np formula p' q' by (intro exI [of _ p'] exI [of _ q'] exI [of _ np]) simp
qed

theorem update_velocity_and_position_witness:
  "mp_move_type (MovingPlatform_init 800 400 100 20 ''horizontal'' (15 / 10) 80)
      \<in> {''horizontal'', ''vertical'', ''circular''}
   \<and> (\<exists>p'. MovingPlatform_update (MovingPlatform_init 800 400 100 20 ''horizontal'' (15 / 10) 80) = Inr p'
         \<and> mp_velocity p' = (sin (3 / 100) * 80, 0)
         \<and> (plat_x p', plat_y p') = (800 + sin (3 / 100) * 80, 400))"
proof -
  let ?P = "MovingPlatform_init 800 400 100 20 ''horizontal'' (15 / 10) 80"
  have h: "mp_move_type ?P \<in> {''horizontal'', ''vertical'', ''circular''}"
    by (simp add: MovingPlatform_init_def)
  obtain p' np where u: "MovingPlatform_update ?P = Inr p'"
    and n: "np = (let t = mp_time ?P + 2 / 100 in
               if mp_move_type ?P = ''horizontal''
               then (fst (mp_original_pos ?P) + sin (t * mp_speed ?P) * mp_distance ?P, snd (mp_original_pos ?P))
               else if mp_move_type ?P = ''vertical''
               then (fst (mp_original_pos ?P), snd (mp_original_pos ?P) + sin (t * mp_speed ?P) * mp_distance ?P)
               else (mp_center_x ?P + cos (t * mp_speed ?P) * mp_radius ?P - floordiv2 (plat_width ?P),
                     mp_center_y ?P + sin (t * mp_speed ?P) * mp_radius ?P - floordiv2 (plat_height ?P)))"
    and v: "mp_velocity p' = (fst np - plat_x ?P, snd np - plat_y ?P)"
    and xy: "(plat_x p', plat_y p') = np"
    using update_velocity_and_position [OF h] by blast
  have "np = (800 + sin (3 / 100) * 80, 400)"
    unfolding n by (simp add: MovingPlatform_init_def Let_def)
  then have "mp_velocity p' = (sin (3 / 100) * 80, 0)"
    and "(plat_x p', plat_y p') = (800 + sin (3 / 100) * 80, 400)"
    using v xy by (simp_all add: MovingPlatform_init_def)
  with h u show ?thesis by blast
qed

section \<open>Circular platforms\<close>

lemma orbit_norm: "sqrt ((cos a * r)\<^sup>2 + (sin a * r)\<^sup>2) = \<bar>r\<bar>"
proof -
  have "(cos a * r)\<^sup>2 + (sin a * r)\<^sup>2 = r\<^sup>2 * ((cos a)\<^sup>2 + (sin a)\<^sup>2)"
    by (simp only: power_mult_distrib distrib_left mult.commute)
  also have "\<dots> = r\<^sup>2"
    by (simp only: sin_cos_squared_add2 mult_1_right)
  finally show ?thesis
    by (simp only: real_sqrt_abs)
qed

text \<open>
  Claim C8, as amended. For a circular platform in any state, \<^verbatim>\<open>update\<close> returns and
  leaves the platform's centre point, taken with the constructor's half-extents
  \<^verbatim>\<open>width // 2\<close> and \<^verbatim>\<open>height // 2\<close>, at a distance from the orbit centre equal to
  the magnitude of the orbit radius, whatever the accumulated time. The constructor
  itself places the platform with its centre on the orbit centre: before the first
  update, at accumulated time 0, the distance is 0.
\<close>

theorem circular_orbit_after_update:
  assumes "mp_move_type p = ''circular''"
  shows "\<exists>p'. MovingPlatform_update p = Inr p'
      \<and> mp_time p' = mp_time p + 2 / 100
      \<and> mp_radius p' = mp_radius p
      \<and> mp_center_x p' = mp_center_x p \<and> mp_center_y p' = mp_center_y p
      \<and> distance_to_orbit_center p' = \<bar>mp_radius p\<bar>"
proof -
  let ?t = "p\<lparr>mp_time := mp_time p + 2 / 100\<rparr>"
  let ?a = "mp_time ?t * mp_speed p"
  let ?np = "(mp_center_x p + cos ?a * mp_radius p - floordiv2 (plat_width p),
              mp_center_y p + sin ?a * mp_radius p - floordiv2 (plat_height p))"
  have np: "new_position ?t = Inr ?np"
    using assms by (simp add: new_position_def Let_def apply_rotation)
  obtain p' where p': "MovingPlatform_update p = Inr p'"
    "plat_x p' = fst ?np" "plat_y p' = snd ?np" "mp_time p' = mp_time p + 2 / 100"
    "mp_radius p' = mp_radius p" "mp_center_x p' = mp_center_x p" "mp_center_y p' = mp_center_y p"
    "plat_width p' = plat_width p" "plat_height p' = plat_height p"
    using MovingPlatform_update_Inr [OF np] by blast
  have "sqrt ((cos ?a * mp_radius p)\<^sup>2 + (sin ?a * mp_radius p)\<^sup>2) = \<bar>mp_radius p\<bar>"
    by (rule orbit_norm)
  then have "distance_to_orbit_center p' = \<bar>mp_radius p\<bar>"
    by (simp add: distance_to_orbit_center_def platform_center_def p')
  with p' show ?thesis by blast
qed

theorem circular_orbit_after_update_witness:
  "mp_move_type (MovingPlatform_init 1500 300 90 20 ''circular'' (8 / 10) 100) = ''circular''
   \<and> (\<exists>p'. MovingPlatform_update (MovingPlatform_init 1500 300 90 20 ''circular'' (8 / 10) 100) = Inr p'
         \<and> mp_time p' = 2 / 100 \<and> distance_to_orbit_center p' = 50)"
proof -
  have "floordiv2 100 = 50"
    by (simp add: floordiv2_def)
  then show ?thesis
    using circular_orbit_after_update [of "MovingPlatform_init 1500 300 90 20 ''circular'' (8 / 10) 100"]
    by (auto simp: MovingPlatform_init_def)
qed

text \<open>Every platform that the constructor builds has its centre on the orbit centre, at
  accumulated time 0.\<close>

lemma constructor_on_orbit_center:
  "mp_time (MovingPlatform_init a b w h move_type speed distance) = 0
   \<and> platform_center (MovingPlatform_init a b w h move_type speed distance) =
       (mp_center_x (MovingPlatform_init a b w h move_type speed distance),
        mp_center_y (MovingPlatform_init a b w h move_type speed distance))
   \<and> distance_to_orbit_center (MovingPlatform_init a b w h move_type speed distance) = 0"
  by (simp add: MovingPlatform_init_def platform_center_def distance_to_orbit_center_def)

text \<open>The circular platform of level 1, as the constructor leaves it.\<close>

theorem circular_orbit_counterexample:
  "(let p = MovingPlatform_init 1500 300 90 20 ''circular'' (8 / 10) 100
    in mp_move_type p = ''circular'' \<and> mp_time p = 0 \<and> mp_radius p = 50
       \<and> (mp_center_x p, mp_center_y p) = (1545, 310)
       \<and> platform_center p = (1545, 310)
       \<and> distance_to_orbit_center p = 0
       \<and> distance_to_orbit_center p \<noteq> mp_radius p)"
proof -
  have "floordiv2 100 = 50" "floordiv2 90 = 45" "floordiv2 20 = 10"
    by (simp_all add: floordiv2_def)
  then show ?thesis
    by (simp add: Let_def MovingPlatform_init_def platform_center_def distance_to_orbit_center_def)
qed

section \<open>The collision pass\<close>

lemma same_but_motion_refl: "same_but_motion b b"
  by (simp add: same_but_motion_def)

lemma same_but_motion_trans:
  "same_but_motion a b \<Longrightarrow> same_but_motion b c \<Longrightarrow> same_but_motion a c"
  by (simp add: same_but_motion_def)

lemma same_but_motion_resolve: "same_but_motion b (resolve_overlap p b)"
  by (cases p) (simp_all add: resolve_overlap_def same_but_motion_def Let_def)

lemma same_but_motion_fast: "same_but_motion b (fast_platform_check p b)"
  by (cases p) (simp_all add: fast_platform_check_def same_but_motion_def Let_def)

lemma same_but_motion_collide: "same_but_motion b (fst (collide_platform (b, br) p))"
  using same_but_motion_trans [OF same_but_motion_resolve same_but_motion_fast]
  by (simp add: collide_platform_def Let_def same_but_motion_refl)

lemma same_but_motion_loop:
  "same_but_motion b (fst s) \<Longrightarrow> same_but_motion b (fst (foldl collide_platform s ps))"
proof (induction ps arbitrary: s)
  case Nil
  then show ?case by simp
next
  case (Cons p ps)
  obtain b1 br1 where s: "s = (b1, br1)"
    by (cases s)
  have "same_but_motion b (fst (collide_platform s p))"
    using Cons.prems same_but_motion_collide [of b1 br1 p]
    by (auto simp: s intro: same_but_motion_trans)
  then show ?case
    using Cons.IH by simp
qed

text \<open>
  Claim C10. For every platform list, \<^verbatim>\<open>handle_platform_collision\<close> leaves the
  platform objects as they were, and changes nothing of the avatar but its position,
  velocity and on-ground flag: lives, radius, base radius, scale factor, scale timer and
  rotation are unchanged, and so are the start position and the physics constants.
\<close>

theorem collision_pass_frame:
  "(case handle_platform_collision platforms b of (b', platforms') \<Rightarrow>
      platforms' = platforms
      \<and> ball_lives b' = ball_lives b
      \<and> ball_radius b' = ball_radius b
      \<and> ball_base_radius b' = ball_base_radius b
      \<and> ball_scale_factor b' = ball_scale_factor b
      \<and> ball_scale_timer b' = ball_scale_timer b
      \<and> ball_rotation b' = ball_rotation b
      \<and> ball_original_pos b' = ball_original_pos b
      \<and> ball_gravity b' = ball_gravity b
      \<and> ball_jump_force b' = ball_jump_force b
      \<and> ball_move_speed b' = ball_move_speed b
      \<and> ball_friction b' = ball_friction b)"
proof -
  have "same_but_motion b (fst (foldl collide_platform (b, ball_rect b) platforms))"
    by (rule same_but_motion_loop) (simp add: same_but_motion_refl)
  then show ?thesis
    by (simp add: handle_platform_collision_def same_but_motion_def)
qed

lemma loop_no_collision:
  "\<forall>q \<in> set ps. \<not> colliderect br (any_rect q) \<Longrightarrow> foldl collide_platform (b, br) ps = (b, br)"
  by (induction ps) (simp_all add: collide_platform_def)

lemma land_on_static:
  assumes "colliderect (ball_rect b) (plat_rect P)"
    and "min_overlap b (plat_rect P) = overlap_top b (plat_rect P)"
    and "snd (ball_velocity b) \<ge> 0"
  shows "collide_platform (b, ball_rect b) (Static P) =
     (b\<lparr>ball_pos := (fst (ball_pos b), of_int (rect_top (plat_rect P)) - ball_radius b),
        ball_velocity := (fst (ball_velocity b), 0),
        ball_on_ground := True\<rparr>,
      update_ball_rect (ball_rect b)
        (b\<lparr>ball_pos := (fst (ball_pos b), of_int (rect_top (plat_rect P)) - ball_radius b)\<rparr>))"
proof -
  let ?b1 = "b\<lparr>ball_pos := (fst (ball_pos b), of_int (rect_top (plat_rect P)) - ball_radius b),
        ball_velocity := (fst (ball_velocity b), 0),
        ball_on_ground := True\<rparr>"
  have r: "resolve_overlap (Static P) b = ?b1"
    using assms(2,3) by (simp add: resolve_overlap_def any_rect_def Let_def)
  have f: "fast_platform_check (Static P) ?b1 = ?b1"
    by (simp add: fast_platform_check_def)
  have "update_ball_rect (ball_rect b) ?b1 =
      update_ball_rect (ball_rect b)
        (b\<lparr>ball_pos := (fst (ball_pos b), of_int (rect_top (plat_rect P)) - ball_radius b)\<rparr>)"
    by (simp add: update_ball_rect_def)
  then show ?thesis
    using assms(1) by (simp add: collide_platform_def any_rect_def r f Let_def)
qed

text \<open>
  Claim C1, as amended. Let the avatar's rectangle, as the pass builds it
  (\<^verbatim>\<open>pygame.Rect\<close>, integer coordinates), collide with a static platform's rectangle,
  let the top overlap be the minimum of the four overlaps and the vertical velocity be
  non-negative, and let no other platform of the list collide with the avatar's
  rectangle during the pass: none before it in the list with the rectangle at the start,
  none after it with the rectangle as the pass re-assigns its corner after the landing
  (the corner of the landed avatar's square, rounded). Then the pass ends with the
  avatar on the ground, its vertical velocity 0 and its vertical position the platform's
  top minus the radius.
\<close>

theorem landing_on_static_platform:
  assumes "\<forall>q \<in> set pre. \<not> colliderect (ball_rect b) (any_rect q)"
    and "colliderect (ball_rect b) (plat_rect P)"
    and "min_overlap b (plat_rect P) = overlap_top b (plat_rect P)"
    and "snd (ball_velocity b) \<ge> 0"
    and "\<forall>q \<in> set post. \<not> colliderect
            (update_ball_rect (ball_rect b)
               (b\<lparr>ball_pos := (fst (ball_pos b), of_int (rect_top (plat_rect P)) - ball_radius b)\<rparr>))
            (any_rect q)"
  shows "(let b' = fst (handle_platform_collision (pre @ Static P # post) b)
          in ball_on_ground b'
           \<and> snd (ball_velocity b') = 0
           \<and> snd (ball_pos b') = of_int (rect_top (plat_rect P)) - ball_radius b'
           \<and> ball_radius b' = ball_radius b
           \<and> fst (ball_pos b') = fst (ball_pos b)
           \<and> fst (ball_velocity b') = fst (ball_velocity b))"
proof -
  have "foldl collide_platform (b, ball_rect b) (pre @ Static P # post) =
        foldl collide_platform (collide_platform (b, ball_rect b) (Static P)) post"
    using loop_no_collision [OF assms(1)] by simp
  also have "\<dots> = collide_platform (b, ball_rect b) (Static P)"
    unfolding land_on_static [OF assms(2,3,4)]
    by (rule loop_no_collision [OF assms(5)])
  finally show ?thesis
    by (simp add: handle_platform_collision_def land_on_static [OF assms(2,3,4)] Let_def)
qed

lemma py_int_numeral [simp]:
  "py_int (numeral k) = numeral k" "py_int 0 = 0" "py_int 1 = 1"
  by (simp_all add: py_int_def)

lemma rect_attr_int_of_int [simp]: "rect_attr_int (of_int n) = n"
proof -
  have "\<lfloor>real_of_int n + 1 / 2\<rfloor> = n" and "\<lceil>real_of_int n - 1 / 2\<rceil> = n"
    by linarith+
  then show ?thesis
    by (simp add: rect_attr_int_def)
qed

lemma rect_attr_int_numeral [simp]: "rect_attr_int (numeral k) = numeral k"
  using rect_attr_int_of_int [of "numeral k"] by simp

lemmas rect_defs = Rect_def rect_left_def rect_right_def rect_top_def rect_bottom_def
  colliderect_def ball_rect_def Platform_init_def any_rect_def

lemmas overlap_defs = overlap_left_def overlap_right_def overlap_top_def overlap_bottom_def
  min_overlap_def

theorem landing_on_static_platform_witness:
  "(let b = (Ball_init 300 437)\<lparr>ball_velocity := (0, 2)\<rparr>;
        P = Platform_init 250 450 150 20;
        before = [Static (Platform_init 0 550 200 50)];
        after = [Static (Platform_init 450 350 100 20)];
        b' = fst (handle_platform_collision (before @ Static P # after) b)
    in colliderect (ball_rect b) (plat_rect P)
     \<and> min_overlap b (plat_rect P) = overlap_top b (plat_rect P)
     \<and> ball_on_ground b' \<and> ball_velocity b' = (0, 0) \<and> ball_pos b' = (300, 435))"
proof -
  let ?b = "(Ball_init 300 437)\<lparr>ball_velocity := (0, 2)\<rparr>"
  let ?P = "Platform_init 250 450 150 20"
  let ?pre = "[Static (Platform_init 0 550 200 50)]"
  let ?post = "[Static (Platform_init 450 350 100 20)]"
  have 1: "\<forall>q \<in> set ?pre. \<not> colliderect (ball_rect ?b) (any_rect q)"
    by (simp add: rect_defs Ball_init_def)
  have 2: "colliderect (ball_rect ?b) (plat_rect ?P)"
    by (simp add: rect_defs Ball_init_def)
  have 3: "min_overlap ?b (plat_rect ?P) = overlap_top ?b (plat_rect ?P)"
    by (simp add: rect_defs overlap_defs Ball_init_def)
  have 4: "snd (ball_velocity ?b) \<ge> 0"
    by simp
  have 5: "\<forall>q \<in> set ?post. \<not> colliderect
            (update_ball_rect (ball_rect ?b)
               (?b\<lparr>ball_pos := (fst (ball_pos ?b), of_int (rect_top (plat_rect ?P)) - ball_radius ?b)\<rparr>))
            (any_rect q)"
    by (simp add: rect_defs update_ball_rect_def Ball_init_def)
  have v: "ball_radius ?b = 15" "ball_pos ?b = (300, 437)" "ball_velocity ?b = (0, 2)"
    "rect_top (plat_rect ?P) = 450"
    by (simp_all add: Ball_init_def rect_defs)
  show ?thesis
    using landing_on_static_platform [OF 1 2 3 4 5] 2 3
    by (simp add: Let_def v prod_eq_iff)
qed

lemma py_int_frac: "py_int (281 / 4) = 70"
  by (simp add: py_int_def)

text \<open>
  Two inputs at which the avatar's bounding square overlaps the static platform
  \<^verbatim>\<open>Platform(0, 100, 200, 50)\<close> with the top overlap smallest and vertical velocity 0.
  With a second platform \<^verbatim>\<open>Platform(0, 95, 200, 50)\<close> after it in the list, the pass
  lands the avatar on the first and then on the second: it ends at 80, not at 85. With
  the avatar's centre at 85.25 the square reaches 0.25 below the platform's top, the
  integer rectangle ends at the top, nothing collides and the avatar is not on the
  ground.
\<close>

theorem landing_counterexample:
  "(let P1 = Platform_init 0 100 200 50;
        P2 = Platform_init 0 95 200 50;
        b = Ball_init 100 90;
        b' = fst (handle_platform_collision [Static P1, Static P2] b);
        c = Ball_init 100 (341 / 4);
        c' = fst (handle_platform_collision [Static P1] c)
    in bounding_square_overlaps b (plat_rect P1)
     \<and> min_overlap b (plat_rect P1) = overlap_top b (plat_rect P1)
     \<and> snd (ball_velocity b) \<ge> 0
     \<and> snd (ball_pos b') = 80
     \<and> of_int (rect_top (plat_rect P1)) - ball_radius b' = 85
     \<and> bounding_square_overlaps c (plat_rect P1)
     \<and> min_overlap c (plat_rect P1) = overlap_top c (plat_rect P1)
     \<and> snd (ball_velocity c) \<ge> 0
     \<and> \<not> ball_on_ground c'
     \<and> snd (ball_pos c') = 341 / 4
     \<and> of_int (rect_top (plat_rect P1)) - ball_radius c' = 85)"
  by (simp add: Let_def handle_platform_collision_def collide_platform_def resolve_overlap_def
      fast_platform_check_def update_ball_rect_def bounding_square_overlaps_def rect_defs
      overlap_defs Ball_init_def py_int_frac)

section \<open>Reaching the flag\<close>

lemma coins_loop_snd:
  "snd (coins_loop br (c # cs) g) =
     snd (coins_loop br cs
       (if \<not> coin_collected c \<and> colliderect br (coin_rect c)
        then g\<lparr>game_score := game_score g + 10,
                game_camera := add_screen_shake 1 5 (game_camera g)\<rparr>
        else g))"
  by (simp add: Let_def split: prod.splits)

lemma coins_loop_keeps:
  "game_flag (snd (coins_loop br cs g)) = game_flag g
   \<and> game_current_level (snd (coins_loop br cs g)) = game_current_level g
   \<and> game_max_level (snd (coins_loop br cs g)) = game_max_level g"
proof (induction cs arbitrary: g)
  case Nil
  then show ?case by simp
next
  case (Cons c cs)
  show ?case
    unfolding coins_loop_snd by (simp add: Cons.IH)
qed

lemma powerups_loop_snd:
  "snd (powerups_loop br (p # ps) g) =
     snd (powerups_loop br ps
       (if \<not> pu_collected p \<and> colliderect br (powerup_rect p)
        then g\<lparr>game_ball := apply_powerup (pu_power_type p) (game_ball g),
                game_camera := add_screen_shake 2 8 (game_camera g)\<rparr>
        else g))"
  by (simp add: Let_def split: prod.splits)

lemma powerups_loop_keeps:
  "game_flag (snd (powerups_loop br ps g)) = game_flag g
   \<and> game_current_level (snd (powerups_loop br ps g)) = game_current_level g
   \<and> game_max_level (snd (powerups_loop br ps g)) = game_max_level g"
proof (induction ps arbitrary: g)
  case Nil
  then show ?case by simp
next
  case (Cons p ps)
  show ?case
    unfolding powerups_loop_snd by (simp add: Cons.IH)
qed

lemma check_flag_advance:
  assumes "\<not> flag_collected (game_flag g)"
    and "colliderect br (flag_rect (game_flag g))"
    and "game_current_level g < game_max_level g"
  shows "game_score (check_flag br g) = 0
     \<and> game_ball (check_flag br g) = Ball_init 100 400
     \<and> game_current_level (check_flag br g) = game_current_level g + 1
     \<and> \<not> game_level_complete (check_flag br g)
     \<and> \<not> flag_collected (game_flag (check_flag br g))
     \<and> game_coins (check_flag br g) = create_coins (g\<lparr>game_current_level := game_current_level g + 1\<rparr>)
     \<and> game_powerups (check_flag br g) = create_powerups (g\<lparr>game_current_level := game_current_level g + 1\<rparr>)"
  using assms
  by (simp add: check_flag_def reset_level_def Let_def Flag_init_def create_coins_def
      create_powerups_def)

text \<open>
  Claim C9. When \<^verbatim>\<open>check_collisions\<close> finds the avatar's rectangle colliding with the
  flag's region, the flag not yet collected and the current level below the maximum, it
  ends with the score 0 (the 100 points just awarded, and whatever the coins loop added
  in the same call, are overwritten by \<^verbatim>\<open>reset_level\<close>), with a new avatar
  \<^verbatim>\<open>Ball(100, 400)\<close> that has 2 lives, with the level number advanced by one and
  with \<^verbatim>\<open>level_complete\<close> false.
\<close>

theorem flag_discards_score_and_lives:
  assumes "\<not> flag_collected (game_flag g)"
    and "colliderect (ball_rect (game_ball g)) (flag_rect (game_flag g))"
    and "game_current_level g < game_max_level g"
  shows "game_score (check_collisions g) = 0
     \<and> game_ball (check_collisions g) = Ball_init 100 400
     \<and> ball_lives (game_ball (check_collisions g)) = 2
     \<and> game_current_level (check_collisions g) = game_current_level g + 1
     \<and> \<not> game_level_complete (check_collisions g)"
proof -
  let ?br = "ball_rect (game_ball g)"
  obtain cs g1 where c: "coins_loop ?br (game_coins g) g = (cs, g1)"
    by (cases "coins_loop ?br (game_coins g) g")
  let ?g2 = "g1\<lparr>game_coins := cs\<rparr>"
  obtain ps g3 where p: "powerups_loop ?br (game_powerups g1) ?g2 = (ps, g3)"
    by (cases "powerups_loop ?br (game_powerups g1) ?g2")
  let ?g4 = "g3\<lparr>game_powerups := ps\<rparr>"
  have g1: "game_flag g1 = game_flag g" "game_current_level g1 = game_current_level g"
    "game_max_level g1 = game_max_level g"
    using coins_loop_keeps [of ?br "game_coins g" g] by (simp_all add: c)
  have g3: "game_flag g3 = game_flag ?g2" "game_current_level g3 = game_current_level ?g2"
    "game_max_level g3 = game_max_level ?g2"
    using powerups_loop_keeps [of ?br "game_powerups g1" ?g2] by (simp_all add: p)
  have eq: "check_collisions g = check_flag ?br ?g4"
    using p by (simp add: check_collisions_def Let_def c)
  have "\<not> flag_collected (game_flag ?g4)"
    and "colliderect ?br (flag_rect (game_flag ?g4))"
    and "game_current_level ?g4 < game_max_level ?g4"
    using assms g1 g3 by simp_all
  from check_flag_advance [OF this] show ?thesis
    using g1 g3 by (simp add: eq Ball_init_def)
qed


theorem flag_discards_score_and_lives_witness:
  "(let g = Game_init\<lparr>game_ball := (Ball_init 100 400)\<lparr>ball_pos := (1850, 460), ball_lives := 1\<rparr>,
                       game_score := 50\<rparr>
    in \<not> flag_collected (game_flag g)
     \<and> colliderect (ball_rect (game_ball g)) (flag_rect (game_flag g))
     \<and> game_current_level g < game_max_level g
     \<and> game_score (check_collisions g) = 0
     \<and> ball_lives (game_ball (check_collisions g)) = 2
     \<and> game_current_level (check_collisions g) = 2)"
proof -
  let ?g = "Game_init\<lparr>game_ball := (Ball_init 100 400)\<lparr>ball_pos := (1850, 460), ball_lives := 1\<rparr>,
                       game_score := 50\<rparr>"
  have 1: "\<not> flag_collected (game_flag ?g)"
    by (simp add: Game_init_def reset_level_def Flag_init_def)
  have 2: "colliderect (ball_rect (game_ball ?g)) (flag_rect (game_flag ?g))"
    by (simp add: Game_init_def reset_level_def Flag_init_def flag_rect_def rect_defs Ball_init_def)
  have 3: "game_current_level ?g < game_max_level ?g"
    by (simp add: Game_init_def reset_level_def)
  have 4: "game_current_level ?g = 1"
    by (simp add: Game_init_def reset_level_def)
  note t = flag_discards_score_and_lives [OF 1 2 3]
  have "game_current_level (check_collisions ?g) = game_current_level ?g + 1"
    using t by blast
  then have "game_current_level (check_collisions ?g) = 2"
    unfolding 4 by simp
  moreover have "game_score (check_collisions ?g) = 0"
    and "ball_lives (game_ball (check_collisions ?g)) = 2"
    using t by blast+
  ultimately have c: "game_score (check_collisions ?g) = 0"
    "ball_lives (game_ball (check_collisions ?g)) = 2"
    "game_current_level (check_collisions ?g) = 2"
    by blast+
  show ?thesis
    unfolding Let_def by (intro conjI 1 2 3 c)
qed

section \<open>Lives and the level reset\<close>

lemma coins_loop_none:
  "\<forall>c \<in> set cs. coin_collected c \<or> \<not> colliderect br (coin_rect c) \<Longrightarrow>
   coins_loop br cs g = (cs, g)"
  by (induction cs) auto

lemma powerups_loop_none:
  "\<forall>q \<in> set ps. pu_collected q \<or> \<not> colliderect br (powerup_rect q) \<Longrightarrow>
   powerups_loop br ps g = (ps, g)"
  by (induction ps) auto

lemma powerups_loop_skip:
  "\<forall>q \<in> set pre. pu_collected q \<or> \<not> colliderect br (powerup_rect q) \<Longrightarrow>
   powerups_loop br (pre @ rest) g =
     (pre @ fst (powerups_loop br rest g), snd (powerups_loop br rest g))"
  by (induction pre) (auto simp: Let_def split: prod.splits)

lemma powerups_loop_one:
  assumes "\<forall>q \<in> set pre. pu_collected q \<or> \<not> colliderect br (powerup_rect q)"
    and "\<not> pu_collected p" and "colliderect br (powerup_rect p)"
    and "\<forall>q \<in> set post. pu_collected q \<or> \<not> colliderect br (powerup_rect q)"
  shows "powerups_loop br (pre @ p # post) g =
     (pre @ p\<lparr>pu_collected := True\<rparr> # post,
      g\<lparr>game_ball := apply_powerup (pu_power_type p) (game_ball g),
        game_camera := add_screen_shake 2 8 (game_camera g)\<rparr>)"
  unfolding powerups_loop_skip [OF assms(1)]
  using assms(2,3) by (simp add: Let_def powerups_loop_none [OF assms(4)])

lemma collect_one_powerup:
  assumes "\<forall>c \<in> set (game_coins g).
             coin_collected c \<or> \<not> colliderect (ball_rect (game_ball g)) (coin_rect c)"
    and "game_powerups g = pre @ p # post"
    and "\<forall>q \<in> set pre. pu_collected q \<or> \<not> colliderect (ball_rect (game_ball g)) (powerup_rect q)"
    and "\<not> pu_collected p" and "colliderect (ball_rect (game_ball g)) (powerup_rect p)"
    and "\<forall>q \<in> set post. pu_collected q \<or> \<not> colliderect (ball_rect (game_ball g)) (powerup_rect q)"
    and "\<not> colliderect (ball_rect (game_ball g)) (flag_rect (game_flag g))"
  shows "check_collisions g =
     g\<lparr>game_coins := game_coins g,
       game_ball := apply_powerup (pu_power_type p) (game_ball g),
       game_camera := add_screen_shake 2 8 (game_camera g),
       game_powerups := pre @ p\<lparr>pu_collected := True\<rparr> # post\<rparr>"
  using assms(7)
  by (simp add: check_collisions_def Let_def coins_loop_none [OF assms(1)] assms(2)
      powerups_loop_one [OF assms(3,4,5,6)] check_flag_def)

lemma update_moving_platforms_total:
  "\<forall>p \<in> set ps. mp_move_type p \<in> {''horizontal'', ''vertical'', ''circular''} \<Longrightarrow>
   \<exists>mps. update_moving_platforms ps = Inr mps"
proof (induction ps)
  case Nil
  then show ?case by simp
next
  case (Cons p ps)
  then obtain mps where m: "update_moving_platforms ps = Inr mps"
    by auto
  have "mp_move_type (p\<lparr>mp_time := mp_time p + 2 / 100\<rparr>) \<in> {''horizontal'', ''vertical'', ''circular''}"
    using Cons.prems by simp
  then obtain np where "new_position (p\<lparr>mp_time := mp_time p + 2 / 100\<rparr>) = Inr np"
    using new_position_total by blast
  then obtain p' where "MovingPlatform_update p = Inr p'"
    using MovingPlatform_update_Inr by blast
  with m show ?case by simp
qed

lemma quiet_frame:
  assumes "fi_events inp = []" and "\<forall>k. \<not> fi_keys inp k" and "\<not> game_level_complete g"
    and "\<forall>p \<in> set (game_moving_platforms g).
           mp_move_type p \<in> {''horizontal'', ''vertical'', ''circular''}"
    and "\<forall>q \<in> set (all_platforms g).
           \<not> colliderect (ball_rect (Ball_update (game_ball g))) (any_rect q)"
  shows "\<exists>mps. frame inp g =
     Inr (True, check_fall (update_camera (fi_u1 inp) (fi_u2 inp) (check_collisions
       (g\<lparr>game_ball := Ball_update (game_ball g),
          game_moving_platforms := mps,
          game_coins := map Coin_update (game_coins g),
          game_flag := Flag_update (game_flag g)\<rparr>))))"
proof -
  obtain mps where m: "update_moving_platforms (game_moving_platforms g) = Inr mps"
    using update_moving_platforms_total [OF assms(4)] by blast
  have k: "handle_keys (fi_keys inp) g = g"
    using assms(2) by (simp add: handle_keys_def)
  have a: "all_platforms (g\<lparr>game_ball := Ball_update (game_ball g)\<rparr>) = all_platforms g"
    by (simp add: all_platforms_def)
  have c: "fst (handle_platform_collision (all_platforms g) (Ball_update (game_ball g))) =
      Ball_update (game_ball g)"
    by (simp add: handle_platform_collision_def loop_no_collision [OF assms(5)])
  have "frame inp g =
     Inr (True, check_fall (update_camera (fi_u1 inp) (fi_u2 inp) (check_collisions
       (g\<lparr>game_ball := Ball_update (game_ball g),
          game_moving_platforms := mps,
          game_coins := map Coin_update (game_coins g),
          game_flag := Flag_update (game_flag g)\<rparr>))))"
    using assms(3) by (simp add: frame_def assms(1) k a c m Let_def)
  then show ?thesis ..
qed

lemma Ball_update_lives: "ball_lives (Ball_update b) = ball_lives b"
  unfolding Ball_update_def Let_def
  by (cases "ball_scale_timer b > 0"; cases "ball_scale_timer b - 1 = 0") simp_all

lemma apply_powerup_pos: "ball_pos (apply_powerup t b) = ball_pos b"
  by (simp add: apply_powerup_def Let_def)

lemma apply_powerup_shrink_lives:
  "t \<noteq> ''grow'' \<Longrightarrow> ball_lives (apply_powerup t b) = ball_lives b - 1"
  by (simp add: apply_powerup_def Let_def)

lemma update_camera_keeps:
  "game_ball (update_camera u1 u2 g) = game_ball g"
  "game_score (update_camera u1 u2 g) = game_score g"
  "game_powerups (update_camera u1 u2 g) = game_powerups g"
  "game_current_level (update_camera u1 u2 g) = game_current_level g"
  "game_height (update_camera u1 u2 g) = game_height g"
  by (simp_all add: update_camera_def Let_def)

lemma check_fall_none:
  "snd (ball_pos (game_ball g)) \<le> game_height g + 100 \<Longrightarrow> check_fall g = g"
  by (simp add: check_fall_def)

lemma quiet_shrink_frame:
  assumes "fi_events inp = []" and "\<forall>k. \<not> fi_keys inp k" and "\<not> game_level_complete g"
    and "\<forall>p \<in> set (game_moving_platforms g).
           mp_move_type p \<in> {''horizontal'', ''vertical'', ''circular''}"
    and "\<forall>q \<in> set (all_platforms g).
           \<not> colliderect (ball_rect (Ball_update (game_ball g))) (any_rect q)"
    and "\<forall>c \<in> set (game_coins g).
           coin_collected c \<or> \<not> colliderect (ball_rect (Ball_update (game_ball g))) (coin_rect c)"
    and "game_powerups g = pre @ p # post"
    and "\<forall>q \<in> set pre.
           pu_collected q \<or> \<not> colliderect (ball_rect (Ball_update (game_ball g))) (powerup_rect q)"
    and "\<not> pu_collected p"
    and "colliderect (ball_rect (Ball_update (game_ball g))) (powerup_rect p)"
    and "\<forall>q \<in> set post.
           pu_collected q \<or> \<not> colliderect (ball_rect (Ball_update (game_ball g))) (powerup_rect q)"
    and "\<not> colliderect (ball_rect (Ball_update (game_ball g))) (flag_rect (game_flag g))"
    and "pu_power_type p \<noteq> ''grow''"
    and "snd (ball_pos (Ball_update (game_ball g))) \<le> game_height g + 100"
  shows "\<exists>g'. frame inp g = Inr (True, g')
     \<and> ball_lives (game_ball g') = ball_lives (game_ball g) - 1
     \<and> ball_pos (game_ball g') = ball_pos (Ball_update (game_ball g))
     \<and> game_score g' = game_score g
     \<and> game_current_level g' = game_current_level g
     \<and> game_powerups g' = pre @ p\<lparr>pu_collected := True\<rparr> # post"
proof -
  obtain mps where f: "frame inp g =
     Inr (True, check_fall (update_camera (fi_u1 inp) (fi_u2 inp) (check_collisions
       (g\<lparr>game_ball := Ball_update (game_ball g),
          game_moving_platforms := mps,
          game_coins := map Coin_update (game_coins g),
          game_flag := Flag_update (game_flag g)\<rparr>))))"
    using quiet_frame [OF assms(1,2,3,4,5)] by blast
  let ?G = "g\<lparr>game_ball := Ball_update (game_ball g),
          game_moving_platforms := mps,
          game_coins := map Coin_update (game_coins g),
          game_flag := Flag_update (game_flag g)\<rparr>"
  have 1: "\<forall>c \<in> set (game_coins ?G).
             coin_collected c \<or> \<not> colliderect (ball_rect (game_ball ?G)) (coin_rect c)"
    using assms(6) by (auto simp: Coin_update_def coin_rect_def)
  have 2: "game_powerups ?G = pre @ p # post"
    using assms(7) by simp
  have 3: "\<forall>q \<in> set pre. pu_collected q \<or> \<not> colliderect (ball_rect (game_ball ?G)) (powerup_rect q)"
    using assms(8) by simp
  have 5: "colliderect (ball_rect (game_ball ?G)) (powerup_rect p)"
    using assms(10) by simp
  have 6: "\<forall>q \<in> set post. pu_collected q \<or> \<not> colliderect (ball_rect (game_ball ?G)) (powerup_rect q)"
    using assms(11) by simp
  have 7: "\<not> colliderect (ball_rect (game_ball ?G)) (flag_rect (game_flag ?G))"
    using assms(12) by (simp add: Flag_update_def flag_rect_def)
  note cc = collect_one_powerup [OF 1 2 3 assms(9) 5 6 7]
  let ?C = "update_camera (fi_u1 inp) (fi_u2 inp) (check_collisions ?G)"
  have b: "game_ball ?C = apply_powerup (pu_power_type p) (Ball_update (game_ball g))"
    and s: "game_score ?C = game_score g"
    and l: "game_current_level ?C = game_current_level g"
    and h: "game_height ?C = game_height g"
    and u: "game_powerups ?C = pre @ p\<lparr>pu_collected := True\<rparr> # post"
    by (simp_all add: update_camera_keeps cc)
  have "snd (ball_pos (game_ball ?C)) \<le> game_height ?C + 100"
    using assms(14) by (simp add: b h apply_powerup_pos)
  then have "check_fall ?C = ?C"
    by (rule check_fall_none)
  then have "frame inp g = Inr (True, ?C)"
    using f by simp
  moreover have "ball_lives (game_ball ?C) = ball_lives (game_ball g) - 1"
    by (simp add: b apply_powerup_shrink_lives [OF assms(13)] Ball_update_lives)
  moreover have "ball_pos (game_ball ?C) = ball_pos (Ball_update (game_ball g))"
    by (simp add: b apply_powerup_pos)
  ultimately show ?thesis
    using s l u by blast
qed

lemma py_int_fraction [simp]: "py_int (numeral a / numeral b) = numeral a div numeral b"
  by (simp add: py_int_def)

lemma falling_ball_update:
  "Ball_update ((Ball_init 100 400)\<lparr>ball_pos := (a, c), ball_lives := n\<rparr>) =
     (Ball_init 100 400)\<lparr>ball_pos := (a, c + 1 / 2), ball_lives := n, ball_velocity := (0, 1 / 2)\<rparr>"
  by (simp add: Ball_update_def Ball_init_def Let_def apply_translation apply_scale)

lemma level_one:
  "\<not> game_level_complete (Game_init\<lparr>game_ball := b\<rparr>)"
  "game_height (Game_init\<lparr>game_ball := b\<rparr>) = 600"
  "game_score (Game_init\<lparr>game_ball := b\<rparr>) = 0"
  "game_current_level (Game_init\<lparr>game_ball := b\<rparr>) = 1"
  "game_flag (Game_init\<lparr>game_ball := b\<rparr>) = Flag_init 1850 450"
  "game_ball (Game_init\<lparr>game_ball := b\<rparr>) = b"
  "game_coins (Game_init\<lparr>game_ball := b\<rparr>) =
     [Coin_init 320 410, Coin_init 500 310, Coin_init 660 210, Coin_init 850 360,
      Coin_init 950 260, Coin_init 1220 160, Coin_init 1400 310, Coin_init 1550 260,
      Coin_init 1820 460]"
  "game_powerups (Game_init\<lparr>game_ball := b\<rparr>) =
     [PowerUp_init 300 430 ''shrink'', PowerUp_init 650 230 ''grow'',
      PowerUp_init 900 380 ''shrink'', PowerUp_init 1200 180 ''grow'',
      PowerUp_init 1450 330 ''shrink'']"
  "game_moving_platforms (Game_init\<lparr>game_ball := b\<rparr>) =
     [MovingPlatform_init 800 400 100 20 ''horizontal'' (15 / 10) 80,
      MovingPlatform_init 950 300 80 20 ''vertical'' 1 60,
      MovingPlatform_init 1500 300 90 20 ''circular'' (8 / 10) 100,
      MovingPlatform_init 1600 450 100 20 ''horizontal'' 2 120]"
  "game_platforms (Game_init\<lparr>game_ball := b\<rparr>) =
     [Platform_init 0 550 200 50, Platform_init 250 450 150 20,
      Platform_init 450 350 100 20, Platform_init 600 250 120 20,
      Platform_init 1150 200 150 20, Platform_init 1350 350 100 20,
      Platform_init 1750 500 150 50]"
  by (simp_all add: Game_init_def reset_level_def create_platforms_def create_moving_platforms_def
      create_coins_def create_powerups_def)

lemmas collectible_defs = Coin_init_def PowerUp_init_def Flag_init_def coin_rect_def
  powerup_rect_def flag_rect_def MovingPlatform_init_def all_platforms_def

lemma first_shrink:
  "\<exists>g'. frame \<lparr>fi_events = [], fi_keys = (\<lambda>k. False), fi_u1 = 0, fi_u2 = 0\<rparr>
            (Game_init\<lparr>game_ball := (Ball_init 100 400)\<lparr>ball_pos := (310, 435), ball_lives := 1\<rparr>\<rparr>)
          = Inr (True, g')
     \<and> ball_lives (game_ball g') = 0
     \<and> ball_pos (game_ball g') = (310, 871 / 2)
     \<and> game_score g' = 0
     \<and> game_current_level g' = 1
     \<and> map pu_collected (game_powerups g') = [True, False, False, False, False]"
proof -
  let ?inp = "\<lparr>fi_events = [], fi_keys = (\<lambda>k. False), fi_u1 = 0, fi_u2 = 0\<rparr>"
  let ?b = "(Ball_init 100 400)\<lparr>ball_pos := (310, 435), ball_lives := 1\<rparr>"
  let ?g = "Game_init\<lparr>game_ball := ?b\<rparr>"
  have u: "Ball_update (game_ball ?g) =
      (Ball_init 100 400)\<lparr>ball_pos := (310, 435 + 1 / 2), ball_lives := 1, ball_velocity := (0, 1 / 2)\<rparr>"
    by (simp only: level_one falling_ball_update)
  have r: "ball_rect (Ball_update (game_ball ?g)) = \<lparr>rect_x = 295, rect_y = 420, rect_w = 30, rect_h = 30\<rparr>"
    unfolding u by (simp add: ball_rect_def Rect_def Ball_init_def)
  have y: "snd (ball_pos (Ball_update (game_ball ?g))) = 871 / 2"
    "fst (ball_pos (Ball_update (game_ball ?g))) = 310"
    unfolding u by simp_all
  have 1: "fi_events ?inp = []" and 2: "\<forall>k. \<not> fi_keys ?inp k"
    by simp_all
  have 3: "\<not> game_level_complete ?g"
    by (rule level_one)
  have 4: "\<forall>p \<in> set (game_moving_platforms ?g).
           mp_move_type p \<in> {''horizontal'', ''vertical'', ''circular''}"
    by (simp add: level_one MovingPlatform_init_def)
  have 5: "\<forall>q \<in> set (all_platforms ?g).
           \<not> colliderect (ball_rect (Ball_update (game_ball ?g))) (any_rect q)"
    unfolding r by (simp add: all_platforms_def level_one MovingPlatform_init_def rect_defs)
  have 6: "\<forall>c \<in> set (game_coins ?g).
           coin_collected c \<or> \<not> colliderect (ball_rect (Ball_update (game_ball ?g))) (coin_rect c)"
    unfolding r by (simp add: level_one collectible_defs rect_defs)
  have 7: "game_powerups ?g = [] @ PowerUp_init 300 430 ''shrink'' #
     [PowerUp_init 650 230 ''grow'', PowerUp_init 900 380 ''shrink'',
      PowerUp_init 1200 180 ''grow'', PowerUp_init 1450 330 ''shrink'']"
    by (simp add: level_one)
  have 8: "\<forall>q \<in> set []. pu_collected q \<or>
      \<not> colliderect (ball_rect (Ball_update (game_ball ?g))) (powerup_rect q)"
    by simp
  have 9: "\<not> pu_collected (PowerUp_init 300 430 ''shrink'')"
    by (simp add: PowerUp_init_def)
  have 10: "colliderect (ball_rect (Ball_update (game_ball ?g))) (powerup_rect (PowerUp_init 300 430 ''shrink''))"
    unfolding r by (simp add: collectible_defs rect_defs)
  have 11: "\<forall>q \<in> set [PowerUp_init 650 230 ''grow'', PowerUp_init 900 380 ''shrink'',
      PowerUp_init 1200 180 ''grow'', PowerUp_init 1450 330 ''shrink''].
      pu_collected q \<or> \<not> colliderect (ball_rect (Ball_update (game_ball ?g))) (powerup_rect q)"
    unfolding r by (simp add: collectible_defs rect_defs)
  have 12: "\<not> colliderect (ball_rect (Ball_update (game_ball ?g))) (flag_rect (game_flag ?g))"
    unfolding r by (simp add: level_one collectible_defs rect_defs)
  have 13: "pu_power_type (PowerUp_init 300 430 ''shrink'') \<noteq> ''grow''"
    by (simp add: PowerUp_init_def)
  have 14: "snd (ball_pos (Ball_update (game_ball ?g))) \<le> game_height ?g + 100"
    unfolding y by (simp add: level_one)
  obtain g' where g': "frame ?inp ?g = Inr (True, g')"
    "ball_lives (game_ball g') = ball_lives (game_ball ?g) - 1"
    "ball_pos (game_ball g') = ball_pos (Ball_update (game_ball ?g))"
    "game_score g' = game_score ?g"
    "game_current_level g' = game_current_level ?g"
    "game_powerups g' = [] @ (PowerUp_init 300 430 ''shrink'')\<lparr>pu_collected := True\<rparr> #
     [PowerUp_init 650 230 ''grow'', PowerUp_init 900 380 ''shrink'',
      PowerUp_init 1200 180 ''grow'', PowerUp_init 1450 330 ''shrink'']"
    using quiet_shrink_frame [OF 1 2 3 4 5 6 7 8 9 10 11 12 13 14] by blast
  have "ball_lives (game_ball g') = 0"
    unfolding g'(2) by (simp add: level_one)
  moreover have "ball_pos (game_ball g') = (310, 871 / 2)"
    unfolding g'(3) using y by (simp add: prod_eq_iff)
  moreover have "game_score g' = 0" "game_current_level g' = 1"
    unfolding g'(4,5) by (simp_all add: level_one)
  moreover have "map pu_collected (game_powerups g') = [True, False, False, False, False]"
    unfolding g'(6) by (simp add: PowerUp_init_def)
  ultimately show ?thesis
    using g'(1) by (intro exI [of _ g']) (simp only: simp_thms)
qed

lemma second_shrink:
  "\<exists>g'. frame \<lparr>fi_events = [], fi_keys = (\<lambda>k. False), fi_u1 = 0, fi_u2 = 0\<rparr>
            (Game_init\<lparr>game_ball := (Ball_init 100 400)\<lparr>ball_pos := (905, 385), ball_lives := 0\<rparr>\<rparr>)
          = Inr (True, g')
     \<and> ball_lives (game_ball g') = - 1
     \<and> ball_pos (game_ball g') = (905, 771 / 2)
     \<and> game_score g' = 0
     \<and> game_current_level g' = 1
     \<and> map pu_collected (game_powerups g') = [False, False, True, False, False]"
proof -
  let ?inp = "\<lparr>fi_events = [], fi_keys = (\<lambda>k. False), fi_u1 = 0, fi_u2 = 0\<rparr>"
  let ?b = "(Ball_init 100 400)\<lparr>ball_pos := (905, 385), ball_lives := 0\<rparr>"
  let ?g = "Game_init\<lparr>game_ball := ?b\<rparr>"
  have u: "Ball_update (game_ball ?g) =
      (Ball_init 100 400)\<lparr>ball_pos := (905, 385 + 1 / 2), ball_lives := 0, ball_velocity := (0, 1 / 2)\<rparr>"
    by (simp only: level_one falling_ball_update)
  have r: "ball_rect (Ball_update (game_ball ?g)) = \<lparr>rect_x = 890, rect_y = 370, rect_w = 30, rect_h = 30\<rparr>"
    unfolding u by (simp add: ball_rect_def Rect_def Ball_init_def)
  have y: "snd (ball_pos (Ball_update (game_ball ?g))) = 771 / 2"
    "fst (ball_pos (Ball_update (game_ball ?g))) = 905"
    unfolding u by simp_all
  have 1: "fi_events ?inp = []" and 2: "\<forall>k. \<not> fi_keys ?inp k"
    by simp_all
  have 3: "\<not> game_level_complete ?g"
    by (rule level_one)
  have 4: "\<forall>p \<in> set (game_moving_platforms ?g).
           mp_move_type p \<in> {''horizontal'', ''vertical'', ''circular''}"
    by (simp add: level_one MovingPlatform_init_def)
  have 5: "\<forall>q \<in> set (all_platforms ?g).
           \<not> colliderect (ball_rect (Ball_update (game_ball ?g))) (any_rect q)"
    unfolding r by (simp add: all_platforms_def level_one MovingPlatform_init_def rect_defs)
  have 6: "\<forall>c \<in> set (game_coins ?g).
           coin_collected c \<or> \<not> colliderect (ball_rect (Ball_update (game_ball ?g))) (coin_rect c)"
    unfolding r by (simp add: level_one collectible_defs rect_defs)
  have 7: "game_powerups ?g = [PowerUp_init 300 430 ''shrink'', PowerUp_init 650 230 ''grow''] @
     PowerUp_init 900 380 ''shrink'' #
     [PowerUp_init 1200 180 ''grow'', PowerUp_init 1450 330 ''shrink'']"
    by (simp add: level_one)
  have 8: "\<forall>q \<in> set [PowerUp_init 300 430 ''shrink'', PowerUp_init 650 230 ''grow''].
      pu_collected q \<or> \<not> colliderect (ball_rect (Ball_update (game_ball ?g))) (powerup_rect q)"
    unfolding r by (simp add: collectible_defs rect_defs)
  have 9: "\<not> pu_collected (PowerUp_init 900 380 ''shrink'')"
    by (simp add: PowerUp_init_def)
  have 10: "colliderect (ball_rect (Ball_update (game_ball ?g))) (powerup_rect (PowerUp_init 900 380 ''shrink''))"
    unfolding r by (simp add: collectible_defs rect_defs)
  have 11: "\<forall>q \<in> set [PowerUp_init 1200 180 ''grow'', PowerUp_init 1450 330 ''shrink''].
      pu_collected q \<or> \<not> colliderect (ball_rect (Ball_update (game_ball ?g))) (powerup_rect q)"
    unfolding r by (simp add: collectible_defs rect_defs)
  have 12: "\<not> colliderect (ball_rect (Ball_update (game_ball ?g))) (flag_rect (game_flag ?g))"
    unfolding r by (simp add: level_one collectible_defs rect_defs)
  have 13: "pu_power_type (PowerUp_init 900 380 ''shrink'') \<noteq> ''grow''"
    by (simp add: PowerUp_init_def)
  have 14: "snd (ball_pos (Ball_update (game_ball ?g))) \<le> game_height ?g + 100"
    unfolding y by (simp add: level_one)
  obtain g' where g': "frame ?inp ?g = Inr (True, g')"
    "ball_lives (game_ball g') = ball_lives (game_ball ?g) - 1"
    "ball_pos (game_ball g') = ball_pos (Ball_update (game_ball ?g))"
    "game_score g' = game_score ?g"
    "game_current_level g' = game_current_level ?g"
    "game_powerups g' = [PowerUp_init 300 430 ''shrink'', PowerUp_init 650 230 ''grow''] @
     (PowerUp_init 900 380 ''shrink'')\<lparr>pu_collected := True\<rparr> #
     [PowerUp_init 1200 180 ''grow'', PowerUp_init 1450 330 ''shrink'']"
    using quiet_shrink_frame [OF 1 2 3 4 5 6 7 8 9 10 11 12 13 14] by blast
  have "ball_lives (game_ball g') = - 1"
    unfolding g'(2) by (simp add: level_one)
  moreover have "ball_pos (game_ball g') = (905, 771 / 2)"
    unfolding g'(3) using y by (simp add: prod_eq_iff)
  moreover have "game_score g' = 0" "game_current_level g' = 1"
    unfolding g'(4,5) by (simp_all add: level_one)
  moreover have "map pu_collected (game_powerups g') = [False, False, True, False, False]"
    unfolding g'(6) by (simp add: PowerUp_init_def)
  ultimately show ?thesis
    using g'(1) by (intro exI [of _ g']) (simp only: simp_thms)
qed


lemma fall_at_last_life_resets:
  assumes "snd (ball_pos (game_ball g)) > game_height g + 100" and "ball_lives (game_ball g) \<le> 1"
  shows "game_score (check_fall g) = 0
     \<and> game_ball (check_fall g) = Ball_init 100 400
     \<and> game_powerups (check_fall g) = create_powerups g
     \<and> game_coins (check_fall g) = create_coins g"
  using assms
  by (simp add: check_fall_def reset_level_def Let_def create_powerups_def create_coins_def)

lemma keydown_at_zero_lives_resets:
  assumes "ball_lives (game_ball g) \<le> 0"
    and "\<not> (k = K_r \<and> game_level_complete g \<and> game_current_level g = game_max_level g)"
  shows "game_score (snd (handle_event (running, g) (KEYDOWN k))) = 0
     \<and> game_ball (snd (handle_event (running, g) (KEYDOWN k))) = Ball_init 100 400"
  using assms by (auto simp: handle_event_def reset_level_def Let_def)

text \<open>
  Claim C2 says that the lives counter is never negative in a reachable state and that
  every transition bringing it to zero or below, a shrink power-up included, triggers
  the level reset. The code resets when the avatar falls with its last life, and when a
  key-down event arrives while the lives are zero or less; the collection of a shrink
  power-up itself only subtracts. On level 1, in an iteration without events and with no
  key held: an avatar with 1 life over the first shrink power-up ends with 0 lives, and
  an avatar with 0 lives over the third power-up ends with -1 lives; in both the loop
  keeps running, the avatar stays where it fell to, the level is the same and the
  power-up stays collected, so no reset took place.
\<close>

theorem zero_lives_without_reset:
  "(\<exists>g'. frame \<lparr>fi_events = [], fi_keys = (\<lambda>k. False), fi_u1 = 0, fi_u2 = 0\<rparr>
            (Game_init\<lparr>game_ball := (Ball_init 100 400)\<lparr>ball_pos := (310, 435), ball_lives := 1\<rparr>\<rparr>)
          = Inr (True, g')
     \<and> ball_lives (game_ball g') = 0
     \<and> ball_pos (game_ball g') = (310, 871 / 2)
     \<and> game_score g' = 0
     \<and> game_current_level g' = 1
     \<and> map pu_collected (game_powerups g') = [True, False, False, False, False])
   \<and> (\<exists>g'. frame \<lparr>fi_events = [], fi_keys = (\<lambda>k. False), fi_u1 = 0, fi_u2 = 0\<rparr>
            (Game_init\<lparr>game_ball := (Ball_init 100 400)\<lparr>ball_pos := (905, 385), ball_lives := 0\<rparr>\<rparr>)
          = Inr (True, g')
     \<and> ball_lives (game_ball g') = - 1
     \<and> ball_pos (game_ball g') = (905, 771 / 2)
     \<and> game_score g' = 0
     \<and> game_current_level g' = 1
     \<and> map pu_collected (game_powerups g') = [False, False, True, False, False])"
  using first_shrink second_shrink by (rule conjI)

end
